theory Spec2Isabelle
  imports Complex_Main
begin

section \<open>Data model of \<open>ProfessionalDoubleMAStrategy\<close>\<close>

text \<open>
  Embedding of \<^verbatim>\<open>src/Backtrader/backtest_engine.py\<close> (class
  \<^verbatim>\<open>ProfessionalDoubleMAStrategy\<close>) and of the ledger part of
  \<^verbatim>\<open>src/Backtrader_Plus/trend_strategy.py\<close>.

  Conventions of the embedding.
  \<^item> Python floats (prices, ATR, equity, volumes, the configuration fractions) are IEEE-754
    binary64 numbers. A finite double is the real number it denotes; every arithmetic
    operation of \<^verbatim>\<open>calculate_risk_size\<close> and \<^verbatim>\<open>next\<close> is the exact operation
    followed by rounding to nearest, ties to even (\<open>rnd64\<close>); comparisons are exact.
    A result whose magnitude reaches \<open>2 ^ 1024\<close> stands for the infinity of its sign:
    \<^verbatim>\<open>int()\<close> of it raises \<^verbatim>\<open>OverflowError\<close>. NaN inputs are not represented.
  \<^item> Share counts are Python ints, hence \<open>int\<close>.
  \<^item> The indicator feed and the broker's ledger are read-only inputs of a step: one
    record \<open>bar\<close> holds every value \<^verbatim>\<open>next\<close> reads on that bar, including
    \<^verbatim>\<open>broker.get_value()\<close> and \<^verbatim>\<open>position.size\<close>. Reading them never raises here.
  \<^item> The execution gateway (\<^verbatim>\<open>self.buy\<close>, \<^verbatim>\<open>self.sell\<close>, \<^verbatim>\<open>self.cancel\<close>) may raise:
    a predicate \<open>acc\<close> on requests says which calls return; a call that returns is
    appended to the gateway's \<open>sent\<close> list and, for a submission, yields an order with a
    fresh \<open>ref\<close>.
  \<^item> An exception that escapes a method is the \<open>Inl\<close> branch of its result.
  \<^item> The ledger of \<^verbatim>\<open>trend_strategy.py\<close> uses its profit percentage only through its
    sign; it is computed on the reals.
\<close>

datatype py_error = ZeroDivisionError | OverflowError | ValueError | GatewayError

section \<open>Binary64 arithmetic\<close>

text \<open>
  Rounding to nearest, ties to even, of a real to the binary64 grid: in the binade
  \<open>2\<^sup>e \<le> \<bar>x\<bar> < 2\<^sup>e\<^sup>+\<^sup>1\<close> the grid step is \<open>2\<^sup>e\<^sup>-\<^sup>5\<^sup>2\<close>, and below \<open>2\<^sup>-\<^sup>1\<^sup>0\<^sup>2\<^sup>2\<close> (subnormals) it
  stays \<open>2\<^sup>-\<^sup>1\<^sup>0\<^sup>7\<^sup>4\<close>. The exponent range is not bounded above: a rounded value of
  magnitude \<open>2 ^ 1024\<close> or more is what the hardware delivers as an infinity.
\<close>

definition round_even :: "real \<Rightarrow> int" where
  "round_even x =
     (let f = \<lfloor>x\<rfloor>; d = x - of_int f
      in if d < 1 / 2 then f else if 1 / 2 < d then f + 1 else if even f then f else f + 1)"

definition expo :: "real \<Rightarrow> int" where
  "expo x = max (- 1022) \<lfloor>log 2 \<bar>x\<bar>\<rfloor>"

definition rnd64 :: "real \<Rightarrow> real" where
  "rnd64 x =
     (if x = 0 then 0
      else of_int (round_even (x / 2 powi (expo x - 52))) * 2 powi (expo x - 52))"

definition fin64 :: "real \<Rightarrow> bool" where
  "fin64 x = (\<bar>x\<bar> < 2 ^ 1024)"

definition is_double :: "real \<Rightarrow> bool" where
  "is_double x = (rnd64 x = x \<and> fin64 x)"

text \<open>The double a decimal literal of the source denotes, and the four operations.\<close>

definition dbl :: "real \<Rightarrow> real" where
  "dbl x = rnd64 x"

definition fadd :: "real \<Rightarrow> real \<Rightarrow> real" where
  "fadd a b = rnd64 (a + b)"

definition fsub :: "real \<Rightarrow> real \<Rightarrow> real" where
  "fsub a b = rnd64 (a - b)"

definition fmul :: "real \<Rightarrow> real \<Rightarrow> real" where
  "fmul a b = rnd64 (a * b)"

definition fdivide :: "real \<Rightarrow> real \<Rightarrow> real" where
  "fdivide a b = rnd64 (a / b)"

text \<open>The float an int converts to when it meets a float in a product.\<close>

definition float_of_int :: "int \<Rightarrow> real" where
  "float_of_int n = rnd64 (of_int n)"

record params =
  trend_period :: nat
  slow_period :: nat
  risk_pct :: real
  atr_stop_mult :: real
  max_pos_size :: real
  retain_pct :: real
  trail_trigger :: real
  use_vol_filter :: bool
  use_rsi_filter :: bool
  use_adx_filter :: bool
  adx_threshold :: real

definition default_params :: params where
  "default_params =
     \<lparr> trend_period = 60, slow_period = 30, risk_pct = dbl 0.02, atr_stop_mult = 2.0,
       max_pos_size = dbl 0.8, retain_pct = dbl 0.15, trail_trigger = dbl 0.005,
       use_vol_filter = True, use_rsi_filter = True, use_adx_filter = True,
       adx_threshold = 25 \<rparr>"

datatype exectype = Market | Stop

record order =
  ref :: nat
  isbuy :: bool
  exectype :: exectype
  ord_size :: int
  price :: "real option"

datatype request = Buy int | Sell int | SellStop int real | Cancel nat

record gateway =
  next_ref :: nat
  sent :: "request list"

record strategy =
  stop_order :: "order option"
  last_stop_price :: real
  entry_price :: real
  initial_stop :: real
  break_even_active :: bool
  trade_count :: nat
  win_count :: nat

record bar =
  data_len :: nat
  close :: real
  low :: real
  volume :: real
  atr :: real
  crossover :: real
  trend_ma :: real
  rsi :: real
  vol_ma :: real
  adx :: real
  account_value :: real
  position_size :: int

text \<open>\<^verbatim>\<open>__init__\<close>: the trading state a fresh strategy starts from.\<close>

definition init :: strategy where
  "init = \<lparr> stop_order = None, last_stop_price = 0, entry_price = 0, initial_stop = 0,
            break_even_active = False, trade_count = 0, win_count = 0 \<rparr>"

section \<open>Python arithmetic\<close>

text \<open>\<^verbatim>\<open>int(x)\<close> on a finite float truncates towards zero.\<close>

definition py_int :: "real \<Rightarrow> int" where
  "py_int x = (if 0 \<le> x then \<lfloor>x\<rfloor> else \<lceil>x\<rceil>)"


text \<open>
  \<^verbatim>\<open>int(a / b)\<close> on floats. The division raises on a zero divisor; an infinite
  dividend gives an infinity, or NaN over an infinite divisor, and \<^verbatim>\<open>int()\<close> raises
  \<^verbatim>\<open>OverflowError\<close> on the one and \<^verbatim>\<open>ValueError\<close> on the other; a finite dividend
  over an infinite divisor gives zero; a quotient that rounds beyond the largest double
  is an infinity.
\<close>

definition int_of_quotient :: "real \<Rightarrow> real \<Rightarrow> py_error + int" where
  "int_of_quotient a b =
     (if b = 0 then Inl ZeroDivisionError
      else if \<not> fin64 a then (if fin64 b then Inl OverflowError else Inl ValueError)
      else if \<not> fin64 b then Inr 0
      else
        let q = fdivide a b
        in if fin64 q then Inr (py_int q) else Inl OverflowError)"

text \<open>
  \<^verbatim>\<open>int(n * x)\<close> for an int \<open>n\<close> and a finite float \<open>x\<close>: the int is converted to a
  float first, which raises \<^verbatim>\<open>OverflowError\<close> when it is too large.
\<close>

definition int_of_product :: "int \<Rightarrow> real \<Rightarrow> py_error + int" where
  "int_of_product n x =
     (if \<not> fin64 (float_of_int n) then Inl OverflowError
      else
        let y = fmul (float_of_int n) x
        in if fin64 y then Inr (py_int y) else Inl OverflowError)"

section \<open>Position sizer\<close>

text \<open>
  \<^verbatim>\<open>calculate_risk_size\<close>, with the three values it reads as arguments: the account value,
  the close and the ATR of the bar.
\<close>

definition calculate_risk_size :: "params \<Rightarrow> real \<Rightarrow> real \<Rightarrow> real \<Rightarrow> py_error + int" where
  "calculate_risk_size p value cl a =
     (if a \<le> 0 \<or> cl \<le> 0 then Inr 0
      else
        let risk_money = fmul value (risk_pct p);
            per_share_risk = fmul a (atr_stop_mult p)
        in if per_share_risk \<le> 0 then Inr 0
           else
             (case int_of_quotient risk_money per_share_risk of
                Inl e \<Rightarrow> Inl e
              | Inr target_size \<Rightarrow>
                 (case int_of_quotient (fmul value (max_pos_size p)) cl of
                    Inl e \<Rightarrow> Inl e
                  | Inr max_shares0 \<Rightarrow>
                     let max_shares = (if max_shares0 < 0 then 0 else max_shares0);
                         size0 = min target_size max_shares
                     in Inr (if size0 < 0 then 0 else size0))))"

section \<open>Execution gateway\<close>

definition buy :: "(request \<Rightarrow> bool) \<Rightarrow> gateway \<Rightarrow> int \<Rightarrow> (order \<times> gateway) option" where
  "buy acc gw n =
     (if acc (Buy n)
      then Some (\<lparr> ref = next_ref gw, isbuy = True, exectype = Market, ord_size = n,
                   price = None \<rparr>,
                 gw\<lparr> next_ref := next_ref gw + 1, sent := sent gw @ [Buy n] \<rparr>)
      else None)"

definition sell :: "(request \<Rightarrow> bool) \<Rightarrow> gateway \<Rightarrow> int \<Rightarrow> (order \<times> gateway) option" where
  "sell acc gw n =
     (if acc (Sell n)
      then Some (\<lparr> ref = next_ref gw, isbuy = False, exectype = Market, ord_size = n,
                   price = None \<rparr>,
                 gw\<lparr> next_ref := next_ref gw + 1, sent := sent gw @ [Sell n] \<rparr>)
      else None)"

definition sell_stop ::
  "(request \<Rightarrow> bool) \<Rightarrow> gateway \<Rightarrow> int \<Rightarrow> real \<Rightarrow> (order \<times> gateway) option" where
  "sell_stop acc gw n pr =
     (if acc (SellStop n pr)
      then Some (\<lparr> ref = next_ref gw, isbuy = False, exectype = Stop, ord_size = n,
                   price = Some pr \<rparr>,
                 gw\<lparr> next_ref := next_ref gw + 1, sent := sent gw @ [SellStop n pr] \<rparr>)
      else None)"

definition cancel :: "(request \<Rightarrow> bool) \<Rightarrow> gateway \<Rightarrow> order \<Rightarrow> gateway option" where
  "cancel acc gw ord =
     (if acc (Cancel (ref ord)) then Some (gw\<lparr> sent := sent gw @ [Cancel (ref ord)] \<rparr>)
      else None)"

text \<open>\<^verbatim>\<open>try: self.cancel(order) except Exception: pass\<close>\<close>

definition try_cancel :: "(request \<Rightarrow> bool) \<Rightarrow> gateway \<Rightarrow> order \<Rightarrow> gateway" where
  "try_cancel acc gw ord = (case cancel acc gw ord of None \<Rightarrow> gw | Some gw' \<Rightarrow> gw')"

text \<open>\<^verbatim>\<open>if self.stop_order: try: self.cancel(self.stop_order) except Exception: pass\<close>\<close>

definition cancel_if_any :: "(request \<Rightarrow> bool) \<Rightarrow> gateway \<Rightarrow> order option \<Rightarrow> gateway" where
  "cancel_if_any acc gw so = (case so of None \<Rightarrow> gw | Some old \<Rightarrow> try_cancel acc gw old)"

text \<open>\<^verbatim>\<open>try: self.sell(size=sell_size) except Exception as e: self.log(...)\<close>; the order
  object is not kept.\<close>

definition try_sell :: "(request \<Rightarrow> bool) \<Rightarrow> gateway \<Rightarrow> int \<Rightarrow> gateway" where
  "try_sell acc gw n = (case sell acc gw n of None \<Rightarrow> gw | Some (ord, gw') \<Rightarrow> gw')"

section \<open>Signals\<close>

definition buy_signal :: "params \<Rightarrow> bar \<Rightarrow> bool" where
  "buy_signal p b =
     (let trend_ok = close b > trend_ma b;
          rsi_ok = (if use_rsi_filter p then rsi b > 50 else True);
          vol_ok = (if use_vol_filter p then volume b > fmul (vol_ma b) (dbl 0.8) else True);
          adx_ok = (if use_adx_filter p then adx b > adx_threshold p else True)
      in crossover b > 0 \<and> trend_ok \<and> rsi_ok \<and> vol_ok \<and> adx_ok)"

definition sell_signal :: "bar \<Rightarrow> bool" where
  "sell_signal b = (crossover b < 0)"

section \<open>The step \<^verbatim>\<open>next\<close>\<close>

text \<open>Flat branch: entry with the initial protective stop.\<close>

definition entry ::
  "(request \<Rightarrow> bool) \<Rightarrow> params \<Rightarrow> bar \<Rightarrow> strategy \<times> gateway \<Rightarrow> py_error + strategy \<times> gateway" where
  "entry acc p b st =
     (let s = fst st; gw = snd st in
      if buy_signal p b then
        (case calculate_risk_size p (account_value b) (close b) (atr b) of
           Inl e \<Rightarrow> Inl e
         | Inr n \<Rightarrow>
            if n > 0 then
              (case buy acc gw n of
                 None \<Rightarrow> Inl GatewayError
               | Some (buyord, gw1) \<Rightarrow>
                  let stop_price = fsub (close b) (fmul (atr b) (atr_stop_mult p)) in
                  (case sell_stop acc gw1 n stop_price of
                     None \<Rightarrow> Inr (s, gw1)
                   | Some (ord, gw2) \<Rightarrow>
                      Inr (s\<lparr> stop_order := Some ord, last_stop_price := stop_price,
                              initial_stop := stop_price, break_even_active := False \<rparr>,
                           gw2)))
            else Inr (s, gw))
      else Inr (s, gw))"

text \<open>Part A: break-even promotion.\<close>

definition break_even ::
  "(request \<Rightarrow> bool) \<Rightarrow> bar \<Rightarrow> strategy \<times> gateway \<Rightarrow> strategy \<times> gateway" where
  "break_even acc b st =
     (let s = fst st; gw = snd st; cur_price = close b in
      if \<not> break_even_active s \<and> entry_price s \<noteq> 0 \<and> initial_stop s \<noteq> 0 then
        let initial_risk = fsub (entry_price s) (initial_stop s) in
        if initial_risk > 0
           \<and> fsub cur_price (entry_price s) > fmul initial_risk (dbl 0.6) then
          let new_stop = fmul (entry_price s) (dbl 1.001) in
          if stop_order s = None \<or> new_stop > last_stop_price s then
            let gw1 = cancel_if_any acc gw (stop_order s) in
            (case sell_stop acc gw1 (position_size b) new_stop of
               None \<Rightarrow> (s, gw1)
             | Some (ord, gw2) \<Rightarrow>
                (s\<lparr> stop_order := Some ord, last_stop_price := new_stop,
                    break_even_active := True \<rparr>, gw2))
          else (s, gw)
        else (s, gw)
      else (s, gw))"

text \<open>Part B: trailing stop. \<^verbatim>\<open>if dynamic_stop:\<close> is false for \<open>0.0\<close>.\<close>

definition trailing ::
  "(request \<Rightarrow> bool) \<Rightarrow> params \<Rightarrow> bar \<Rightarrow> strategy \<times> gateway \<Rightarrow> strategy \<times> gateway" where
  "trailing acc p b st =
     (let s = fst st; gw = snd st; cur_price = close b;
          dynamic_stop = fsub cur_price (fmul (atr b) (atr_stop_mult p)) in
      if dynamic_stop \<noteq> 0 then
        (case stop_order s of
           None \<Rightarrow> (s, gw)
         | Some old \<Rightarrow>
            if position_size b > 0
               \<and> dynamic_stop > fmul (last_stop_price s) (fadd 1 (trail_trigger p))
               \<and> dynamic_stop > last_stop_price s
            then
              (case cancel acc gw old of
                 None \<Rightarrow> (s, gw)
               | Some gw1 \<Rightarrow>
                  (case sell_stop acc gw1 (position_size b) dynamic_stop of
                     None \<Rightarrow> (s, gw1)
                   | Some (ord, gw2) \<Rightarrow>
                      (s\<lparr> stop_order := Some ord, last_stop_price := dynamic_stop \<rparr>, gw2)))
            else (s, gw))
      else (s, gw))"

text \<open>
  Part C: partial exit on a dead cross. The computation of \<^verbatim>\<open>retain_size\<close> is outside
  every \<^verbatim>\<open>try\<close>.
\<close>

definition partial_exit ::
  "(request \<Rightarrow> bool) \<Rightarrow> params \<Rightarrow> bar \<Rightarrow> strategy \<times> gateway \<Rightarrow> py_error + strategy \<times> gateway" where
  "partial_exit acc p b st =
     (let s = fst st; gw = snd st in
      if sell_signal b then
        let current_pos = position_size b in
        (case int_of_product current_pos (retain_pct p) of
           Inl e \<Rightarrow> Inl e
         | Inr retain_size \<Rightarrow>
            let sell_size = current_pos - retain_size
            in if sell_size > 0 then
                 let gw1 = try_sell acc gw sell_size;
                     gw2 = cancel_if_any acc gw1 (stop_order s)
                 in if retain_size > 0 then
                      let new_stop_price = max (last_stop_price s) (fsub (low b) (atr b)) in
                      (case sell_stop acc gw2 retain_size new_stop_price of
                         None \<Rightarrow> Inr (s, gw2)
                       | Some (ord, gw3) \<Rightarrow>
                          Inr (s\<lparr> stop_order := Some ord, last_stop_price := new_stop_price \<rparr>,
                               gw3))
                    else Inr (s, gw2)
               else Inr (s, gw))
      else Inr (s, gw))"

text \<open>
  \<^verbatim>\<open>next\<close> (the name is an Isar keyword, hence the prefix). \<^verbatim>\<open>not self.position\<close> is
  \<open>position.size == 0\<close>.
\<close>

definition strategy_next ::
  "(request \<Rightarrow> bool) \<Rightarrow> params \<Rightarrow> bar \<Rightarrow> strategy \<times> gateway \<Rightarrow> py_error + strategy \<times> gateway" where
  "strategy_next acc p b st =
     (if data_len b < max (trend_period p) (slow_period p) + 2 then Inr st
      else if position_size b = 0 then entry acc p b st
      else partial_exit acc p b (trailing acc p b (break_even acc b st)))"

section \<open>Fill notifications\<close>

datatype status =
  Created | Submitted | Accepted | Partial | Completed | Canceled | Expired | Margin | Rejected

record notification =
  n_order :: order
  n_status :: status
  executed_price :: real
  executed_size :: int

text \<open>
  \<^verbatim>\<open>notify_order\<close> of \<^verbatim>\<open>ProfessionalDoubleMAStrategy\<close>; \<open>pos\<close> is \<^verbatim>\<open>self.position.size\<close>
  as the broker reports it when the notification is delivered.
\<close>

definition notify_order :: "strategy \<Rightarrow> int \<Rightarrow> notification \<Rightarrow> strategy" where
  "notify_order s pos n =
     (let s1 =
        (if n_status n = Completed then
           (if isbuy (n_order n) then s\<lparr> entry_price := executed_price n \<rparr>
            else if pos = 0 then
              (let s' = s\<lparr> trade_count := trade_count s + 1 \<rparr> in
               if executed_price n > entry_price s then s'\<lparr> win_count := win_count s + 1 \<rparr>
               else s')
            else s)
         else s)
      in if n_status n \<in> {Completed, Canceled, Margin, Rejected} then
           (case stop_order s1 of
              None \<Rightarrow> s1
            | Some so \<Rightarrow> if ref (n_order n) = ref so then s1\<lparr> stop_order := None \<rparr> else s1)
         else s1)"



section \<open>Vocabulary of the properties\<close>

text \<open>A gateway that never raises, and one whose stop submissions all raise.\<close>

definition accept_all :: "request \<Rightarrow> bool" where
  "accept_all r = True"

fun reject_stops :: "request \<Rightarrow> bool" where
  "reject_stops (SellStop n pr) = False"
| "reject_stops r = True"

text \<open>Concrete inputs of the scenarios.\<close>

definition gw0 :: gateway where
  "gw0 = \<lparr> next_ref = 1, sent = [] \<rparr>"


text \<open>
  A position entered at 100 with the initial stop at 94 whose stop has trailed to 101,
  after which the stop-order reference was cleared: once with the break-even promotion
  already done, once not.
\<close>

definition unpromoted :: strategy where
  "unpromoted = init\<lparr> entry_price := 100, initial_stop := 94, last_stop_price := 101 \<rparr>"

definition promoted :: strategy where
  "promoted = unpromoted\<lparr> break_even_active := True \<rparr>"

definition bar_quiet :: bar where
  "bar_quiet =
     \<lparr> data_len = 100, close = 110, low = 108, volume = 1000, atr = 1, crossover = 0,
       trend_ma = 100, rsi = 60, vol_ma = 1000, adx = 30, account_value = 100000,
       position_size = 333 \<rparr>"

text \<open>A position of 100 units whose stop, order 1, rests at 94.\<close>

definition stop_at_94 :: order where
  "stop_at_94 = \<lparr> ref = 1, isbuy = False, exectype = Stop, ord_size = 100, price = Some 94 \<rparr>"

definition protected :: strategy where
  "protected = init\<lparr> stop_order := Some stop_at_94, entry_price := 100, initial_stop := 94,
                     last_stop_price := 94 \<rparr>"

definition gw1 :: gateway where
  "gw1 = \<lparr> next_ref = 2, sent = [Buy 100, SellStop 100 94] \<rparr>"

definition bar_103 :: bar where
  "bar_103 =
     \<lparr> data_len = 100, close = 103, low = 101, volume = 1000, atr = 1, crossover = 0,
       trend_ma = 100, rsi = 60, vol_ma = 1000, adx = 30, account_value = 100000,
       position_size = 100 \<rparr>"

text \<open>
  A position of 1000 units entered at 100, protected by order 1 (1000 units at 94); a
  dead-cross bar; the market sell of 850 units filled at 110, which leaves 150 units.
\<close>

definition stop_1000 :: order where
  "stop_1000 = \<lparr> ref = 1, isbuy = False, exectype = Stop, ord_size = 1000, price = Some 94 \<rparr>"

definition long_1000 :: strategy where
  "long_1000 = init\<lparr> stop_order := Some stop_1000, entry_price := 100, initial_stop := 94,
                     last_stop_price := 94 \<rparr>"

definition gw2 :: gateway where
  "gw2 = \<lparr> next_ref = 2, sent = [Buy 1000, SellStop 1000 94] \<rparr>"

definition bar_dead_cross :: bar where
  "bar_dead_cross =
     \<lparr> data_len = 100, close = 99, low = 98, volume = 1000, atr = 2, crossover = - 1,
       trend_ma = 100, rsi = 45, vol_ma = 1000, adx = 30, account_value = 100000,
       position_size = 1000 \<rparr>"



text \<open>The default configuration with the retained fraction set to 1.\<close>

definition retain_all :: params where
  "retain_all = default_params\<lparr> retain_pct := 1 \<rparr>"

text \<open>Bars of the 100-unit position closing at 103.6 (as a double) and at 104.\<close>

definition bar_103_6 :: bar where
  "bar_103_6 =
     \<lparr> data_len = 100, close = dbl 103.6, low = 102, volume = 1000, atr = 5, crossover = 0,
       trend_ma = 100, rsi = 60, vol_ma = 1000, adx = 30, account_value = 100000,
       position_size = 100 \<rparr>"

definition bar_104 :: bar where
  "bar_104 = bar_103_6\<lparr> close := 104 \<rparr>"

text \<open>
  A golden-cross bar closing at 100 with an ATR of 3 while flat, and the fill of the
  resulting market buy (order 1, 333 units) at the next open, 101.
\<close>

definition bar_golden_cross :: bar where
  "bar_golden_cross =
     \<lparr> data_len = 100, close = 100, low = 99, volume = 1000, atr = 3, crossover = 1,
       trend_ma = 95, rsi = 60, vol_ma = 1000, adx = 30, account_value = 100000,
       position_size = 0 \<rparr>"

definition buy_fill_101 :: notification where
  "buy_fill_101 =
     \<lparr> n_order = \<lparr> ref = 1, isbuy = True, exectype = Market, ord_size = 333, price = None \<rparr>,
       n_status = Completed, executed_price = 101, executed_size = 333 \<rparr>"

text \<open>Controller and gateway after the entry step on that bar.\<close>

definition stop_333 :: order where
  "stop_333 = \<lparr> ref = 2, isbuy = False, exectype = Stop, ord_size = 333, price = Some 94 \<rparr>"

definition entered_at_94 :: strategy where
  "entered_at_94 = init\<lparr> stop_order := Some stop_333, last_stop_price := 94,
                         initial_stop := 94 \<rparr>"

definition gw_entered :: gateway where
  "gw_entered = \<lparr> next_ref = 3, sent = [Buy 333, SellStop 333 94] \<rparr>"

text \<open>
  A golden-cross bar of a flat account whose equity is negative while the ATR is the
  double \<^verbatim>\<open>1e-306\<close>.
\<close>

definition tiny_atr :: real where
  "tiny_atr = dbl (1 / 10 ^ 306)"


text \<open>
  A position of 100 units entered at 8.74 with its stop, order 1, at 0.29, and a bar
  closing at 13.81 (all three the doubles of these literals).
\<close>

definition stop_at_0_29 :: order where
  "stop_at_0_29 =
     \<lparr> ref = 1, isbuy = False, exectype = Stop, ord_size = 100, price = Some (dbl 0.29) \<rparr>"

definition entered_8_74 :: strategy where
  "entered_8_74 = init\<lparr> stop_order := Some stop_at_0_29, entry_price := dbl 8.74,
                        initial_stop := dbl 0.29, last_stop_price := dbl 0.29 \<rparr>"

definition bar_13_81 :: bar where
  "bar_13_81 = bar_103\<lparr> close := dbl 13.81, low := 13 \<rparr>"

text \<open>
  A position of 100 units whose stop, order 1, has trailed to 188, and a bar closing at
  198.34 with an ATR of 4.7.
\<close>

definition stop_at_188 :: order where
  "stop_at_188 = \<lparr> ref = 1, isbuy = False, exectype = Stop, ord_size = 100, price = Some 188 \<rparr>"

definition trailed_188 :: strategy where
  "trailed_188 = init\<lparr> stop_order := Some stop_at_188, entry_price := 180,
                       initial_stop := 170, last_stop_price := 188,
                       break_even_active := True \<rparr>"

definition bar_198_34 :: bar where
  "bar_198_34 = bar_103\<lparr> close := dbl 198.34, low := 196, atr := dbl 4.7 \<rparr>"

text \<open>The default configuration with the retained fraction 0.35.\<close>

definition retain_35 :: params where
  "retain_35 = default_params\<lparr> retain_pct := dbl 0.35 \<rparr>"

section \<open>Runs\<close>

text \<open>
  A run interleaves bars with the notifications the engine delivers before the next bar;
  a notification comes with the position size the broker reports at that moment.
\<close>

datatype event = Bar bar | Notify int notification

definition step ::
  "(request \<Rightarrow> bool) \<Rightarrow> params \<Rightarrow> event \<Rightarrow> strategy \<times> gateway \<Rightarrow> py_error + strategy \<times> gateway" where
  "step acc p e st =
     (case e of
        Bar b \<Rightarrow> strategy_next acc p b st
      | Notify pos n \<Rightarrow> Inr (notify_order (fst st) pos n, snd st))"

text \<open>\<open>last_stop_price\<close> after each event of a run, up to the first exception.\<close>

fun stop_prices ::
  "(request \<Rightarrow> bool) \<Rightarrow> params \<Rightarrow> event list \<Rightarrow> strategy \<times> gateway \<Rightarrow> real list" where
  "stop_prices acc p [] st = []"
| "stop_prices acc p (e # es) st =
     (case step acc p e st of
        Inl err \<Rightarrow> []
      | Inr st' \<Rightarrow> last_stop_price (fst st') # stop_prices acc p es st')"

text \<open>
  Every bar of the run finds an open position and a controller that holds a stop-order
  reference or has the promotion behind it.
\<close>

fun holds_stop_or_promoted ::
  "(request \<Rightarrow> bool) \<Rightarrow> params \<Rightarrow> event list \<Rightarrow> strategy \<times> gateway \<Rightarrow> bool" where
  "holds_stop_or_promoted acc p [] st = True"
| "holds_stop_or_promoted acc p (e # es) st =
     ((case e of
         Bar b \<Rightarrow> position_size b \<noteq> 0
                  \<and> (stop_order (fst st) \<noteq> None \<or> break_even_active (fst st))
       | Notify pos n \<Rightarrow> True)
      \<and> (case step acc p e st of
            Inl err \<Rightarrow> True
          | Inr st' \<Rightarrow> holds_stop_or_promoted acc p es st'))"

text \<open>
  The run of the counterexample: entry on the golden cross (stop 94), the buy fills at
  100, the stop trails to 101 (order 3), the gateway rejects order 3, and the next bar
  closes at 104.
\<close>

definition buy_fill_100 :: notification where
  "buy_fill_100 = buy_fill_101\<lparr> executed_price := 100 \<rparr>"

definition bar_trail :: bar where
  "bar_trail =
     \<lparr> data_len = 101, close = 103, low = 101, volume = 1000, atr = 1, crossover = 0,
       trend_ma = 95, rsi = 60, vol_ma = 1000, adx = 30, account_value = 100000,
       position_size = 333 \<rparr>"

definition stop_rejected :: notification where
  "stop_rejected =
     \<lparr> n_order = \<lparr> ref = 3, isbuy = False, exectype = Stop, ord_size = 333, price = Some 101 \<rparr>,
       n_status = Rejected, executed_price = 0, executed_size = 0 \<rparr>"

definition bar_after_reject :: bar where
  "bar_after_reject = bar_trail\<lparr> data_len := 102, close := 104, low := 102, atr := 5 \<rparr>"

definition lowered_run :: "event list" where
  "lowered_run =
     [Bar bar_golden_cross, Notify 333 buy_fill_100, Bar bar_trail, Notify 333 stop_rejected,
      Bar bar_after_reject]"

text \<open>The same run without the rejection.\<close>

definition ratchet_run :: "event list" where
  "ratchet_run =
     [Notify 333 buy_fill_100, Bar bar_trail, Bar bar_after_reject]"

section \<open>Size synchronisation\<close>

text \<open>
  The size-sync property in the spec's words: the protective stop the controller holds
  has the size of the position, or there is no stop and the position is 0.
\<close>

definition size_synced :: "strategy \<Rightarrow> int \<Rightarrow> bool" where
  "size_synced s pos =
     (case stop_order s of None \<Rightarrow> pos = 0 | Some ord \<Rightarrow> ord_size ord = pos)"

text \<open>
  The notifications of the engine for a cancelled order and for an order filled in full
  at a price, and their delivery, one after the other, before the next bar.
\<close>

definition canceled :: "order \<Rightarrow> notification" where
  "canceled ord = \<lparr> n_order = ord, n_status = Canceled, executed_price = 0, executed_size = 0 \<rparr>"

definition filled :: "order \<Rightarrow> real \<Rightarrow> notification" where
  "filled ord pr =
     \<lparr> n_order = ord, n_status = Completed, executed_price = pr,
       executed_size = (if isbuy ord then ord_size ord else - ord_size ord) \<rparr>"

fun settle :: "strategy \<Rightarrow> int \<Rightarrow> notification list \<Rightarrow> strategy" where
  "settle s pos [] = s"
| "settle s pos (n # ns) = settle (notify_order s pos n) pos ns"

text \<open>The market orders a step creates at a gateway whose next reference is \<open>r\<close>.\<close>

definition market_buy :: "nat \<Rightarrow> int \<Rightarrow> order" where
  "market_buy r n = \<lparr> ref = r, isbuy = True, exectype = Market, ord_size = n, price = None \<rparr>"

definition market_sell :: "nat \<Rightarrow> int \<Rightarrow> order" where
  "market_sell r n = \<lparr> ref = r, isbuy = False, exectype = Market, ord_size = n, price = None \<rparr>"

section \<open>Collections of facts\<close>

named_theorems float_eval \<open>evaluations of rounded operations at concrete operands\<close>

section \<open>Properties of the rounding\<close>

lemma round_even_cases:
  "round_even x = \<lfloor>x\<rfloor> \<or> round_even x = \<lfloor>x\<rfloor> + 1"
  by (simp add: round_even_def Let_def)

lemma round_even_of_int [simp]: "round_even (of_int n) = n"
  by (simp add: round_even_def)

lemma round_even_le_int:
  assumes "x \<le> of_int n"
  shows "round_even x \<le> n"
proof (cases "x = of_int n")
  case True
  then show ?thesis by simp
next
  case False
  with assms have "x < of_int n" by simp
  then have "\<lfloor>x\<rfloor> < n" by (simp add: floor_less_iff)
  with round_even_cases [of x] show ?thesis by auto
qed

lemma round_even_ge_int:
  assumes "of_int n \<le> x"
  shows "n \<le> round_even x"
proof -
  from assms have "n \<le> \<lfloor>x\<rfloor>" by (simp add: le_floor_iff)
  with round_even_cases [of x] show ?thesis by auto
qed

lemma round_even_below_half:
  assumes "x < of_int n - 1 / 2"
  shows "round_even x \<le> n - 1"
proof -
  have fl: "\<lfloor>x\<rfloor> \<le> n - 1"
  proof -
    from assms have "x < of_int n" by simp
    then have "\<lfloor>x\<rfloor> < n" by (simp add: floor_less_iff)
    then show ?thesis by simp
  qed
  show ?thesis
  proof (cases "\<lfloor>x\<rfloor> = n - 1")
    case True
    with assms have "x - of_int \<lfloor>x\<rfloor> < 1 / 2" by simp
    then have "round_even x = \<lfloor>x\<rfloor>" by (simp add: round_even_def Let_def)
    with True show ?thesis by simp
  next
    case False
    with fl have "\<lfloor>x\<rfloor> + 1 \<le> n - 1" by simp
    with round_even_cases [of x] show ?thesis by auto
  qed
qed

lemma expo_eq:
  assumes "2 powi e \<le> \<bar>x\<bar>" "\<bar>x\<bar> < 2 powi (e + 1)"
  shows "expo x = max (- 1022) e"
proof -
  have pos: "0 < \<bar>x\<bar>"
    using assms(1) by (smt (verit) zero_less_power_int)
  have p1: "(2::real) powr (real_of_int e) = 2 powi e"
    by (rule powr_real_of_int') simp_all
  have p2: "(2::real) powr (real_of_int e + 1) = 2 powi (e + 1)"
    using powr_real_of_int' [of "2::real" "e + 1"] by simp
  have "2 powr (real_of_int e) \<le> \<bar>x\<bar> \<and> \<bar>x\<bar> < 2 powr (real_of_int e + 1)"
    using assms by (simp only: p1 p2)
  then have "\<lfloor>log 2 \<bar>x\<bar>\<rfloor> = e"
    using floor_log_eq_powr_iff [of "\<bar>x\<bar>" 2 e] pos by simp
  then show ?thesis by (simp add: expo_def)
qed

text \<open>Every non-zero real lies in exactly one binade.\<close>

lemma binade_exists:
  fixes x :: real
  assumes "x \<noteq> 0"
  shows "\<exists>e. 2 powi e \<le> \<bar>x\<bar> \<and> \<bar>x\<bar> < 2 powi (e + 1)"
proof -
  have pos: "0 < \<bar>x\<bar>" using assms by simp
  define e where "e = \<lfloor>log 2 \<bar>x\<bar>\<rfloor>"
  have p1: "(2::real) powr (real_of_int e) = 2 powi e"
    by (rule powr_real_of_int') simp_all
  have p2: "(2::real) powr (real_of_int e + 1) = 2 powi (e + 1)"
    using powr_real_of_int' [of "2::real" "e + 1"] by simp
  have "2 powr (real_of_int e) \<le> \<bar>x\<bar> \<and> \<bar>x\<bar> < 2 powr (real_of_int e + 1)"
    using floor_log_eq_powr_iff [of "\<bar>x\<bar>" 2 e] pos e_def by simp
  then show ?thesis by (auto simp only: p1 p2)
qed

lemma rnd64_eval:
  assumes "2 powi e \<le> \<bar>x\<bar>" "\<bar>x\<bar> < 2 powi (e + 1)" "- 1022 \<le> e"
    and "round_even (x / 2 powi (e - 52)) = m"
  shows "rnd64 x = of_int m * 2 powi (e - 52)"
proof -
  have "x \<noteq> 0" using assms(1) by (smt (verit) zero_less_power_int)
  moreover have "expo x = e" using expo_eq [OF assms(1,2)] assms(3) by simp
  ultimately show ?thesis using assms(4) by (simp add: rnd64_def)
qed

lemma rnd64_nonneg:
  assumes "0 \<le> x"
  shows "0 \<le> rnd64 x"
proof (cases "x = 0")
  case True
  then show ?thesis by (simp add: rnd64_def)
next
  case False
  have "0 \<le> x / 2 powi (expo x - 52)" using assms by simp
  then have "of_int 0 \<le> x / 2 powi (expo x - 52)" by simp
  then have "0 \<le> round_even (x / 2 powi (expo x - 52))" by (rule round_even_ge_int)
  with False show ?thesis by (simp add: rnd64_def)
qed

lemma rnd64_nonpos:
  assumes "x \<le> 0"
  shows "rnd64 x \<le> 0"
proof (cases "x = 0")
  case True
  then show ?thesis by (simp add: rnd64_def)
next
  case False
  have "x / 2 powi (expo x - 52) \<le> 0" using assms by (simp add: divide_nonpos_pos)
  then have "x / 2 powi (expo x - 52) \<le> of_int 0" by simp
  then have "round_even (x / 2 powi (expo x - 52)) \<le> 0" by (rule round_even_le_int)
  with False show ?thesis by (simp add: rnd64_def mult_le_0_iff)
qed


lemma pow2_pos: "0 < (2::real) powi k"
  by (simp add: zero_less_power_int)

lemma pow2_split:
  assumes "k \<le> 52"
  shows "(2::real) powi (k - 52) * 2 ^ nat (52 - k) = 1"
proof -
  have a: "(2::real) ^ nat (52 - k) = 2 powi (52 - k)"
    using assms by (simp add: power_int_def)
  have "(2::real) powi ((k - 52) + (52 - k)) = 2 powi (k - 52) * 2 powi (52 - k)"
    by (rule power_int_add) simp
  then have "(2::real) powi (k - 52) * 2 powi (52 - k) = 1" by simp
  then show ?thesis by (simp only: a)
qed

lemma pow2_mono: "a \<le> b \<Longrightarrow> (2::real) powi a \<le> 2 powi b"
  by (rule power_int_increasing) simp_all

lemma pow2_less_imp: "(2::real) powi a < 2 powi b \<Longrightarrow> a < b"
  using pow2_mono [of b a] by (cases "a < b") simp_all

lemma pow2_strict_mono: "a < b \<Longrightarrow> (2::real) powi a < 2 powi b"
  by (rule power_int_strict_increasing) simp_all

lemma pow2_le_imp: "(2::real) powi a \<le> 2 powi b \<Longrightarrow> a \<le> b"
  using pow2_strict_mono [of b a] by (cases "a \<le> b") simp_all

text \<open>Integers below \<open>2 ^ 53\<close> are doubles.\<close>

lemma rnd64_of_int:
  assumes "\<bar>n\<bar> < 2 ^ 53"
  shows "rnd64 (of_int n) = of_int n"
proof (cases "n = 0")
  case True
  then show ?thesis by (simp add: rnd64_def)
next
  case False
  let ?x = "real_of_int n"
  from False have nz: "?x \<noteq> 0" by simp
  from binade_exists [OF nz] obtain e
    where e: "2 powi e \<le> \<bar>?x\<bar>" "\<bar>?x\<bar> < 2 powi (e + 1)" by blast
  from False have "1 \<le> \<bar>n\<bar>" by simp
  then have "real_of_int 1 \<le> real_of_int \<bar>n\<bar>" by (simp only: of_int_le_iff)
  then have ge1: "1 \<le> \<bar>?x\<bar>" by simp
  have "(2::real) powi 0 < 2 powi (e + 1)" using ge1 e(2) by simp
  then have e0: "0 \<le> e" using pow2_less_imp [of 0 "e + 1"] by simp
  from assms have "real_of_int \<bar>n\<bar> < real_of_int (2 ^ 53)" by (simp only: of_int_less_iff)
  then have "\<bar>?x\<bar> < 2 ^ 53" by simp
  with e(1) have "(2::real) powi e < 2 powi 53" by simp
  then have e52: "e \<le> 52" using pow2_less_imp [of e 53] by simp
  from e0 have ex: "expo ?x = e" using expo_eq [OF e] by simp
  let ?u = "(2::real) powi (e - 52)"
  have u: "?u * 2 ^ nat (52 - e) = 1" using e52 by (rule pow2_split)
  have upos: "0 < ?u" by (rule pow2_pos)
  have "?x / ?u = ?x * 2 ^ nat (52 - e)"
    using u upos by (simp add: field_simps)
  also have "\<dots> = of_int (n * 2 ^ nat (52 - e))" by simp
  finally have q: "?x / ?u = of_int (n * 2 ^ nat (52 - e))" .
  have "rnd64 ?x = of_int (round_even (?x / ?u)) * ?u"
    using nz ex by (simp add: rnd64_def)
  also have "\<dots> = of_int (n * 2 ^ nat (52 - e)) * ?u"
    by (simp only: q round_even_of_int)
  also have "\<dots> = ?x * (?u * 2 ^ nat (52 - e))" by simp
  also have "\<dots> = ?x" by (simp only: u mult_1_right)
  finally show ?thesis .
qed

text \<open>The largest double below 1 is \<open>1 - 2\<^sup>-\<^sup>5\<^sup>3\<close>.\<close>

lemma double_below_one:
  assumes "is_double r" "0 \<le> r" "r < 1"
  shows "r \<le> 1 - 2 powi (- 53)"
proof (cases "r < 1 / 2")
  case True
  have "(1::real) / 2 \<le> 1 - 2 powi (- 53)" by (simp add: power_int_minus)
  with True show ?thesis by simp
next
  case False
  then have b: "2 powi (- 1) \<le> \<bar>r\<bar>" "\<bar>r\<bar> < 2 powi (- 1 + 1)"
    using assms by (simp_all add: power_int_minus)
  define m where "m = round_even (r / 2 powi (- 1 - 52))"
  have "rnd64 r = of_int m * 2 powi (- 1 - 52)"
    using b by (rule rnd64_eval) (simp_all add: m_def)
  with assms(1) have r: "r = of_int m * 2 powi (- 53)" by (simp add: is_double_def)
  have "of_int m * 2 powi (- 53) < (1::real)" using r assms(3) by simp
  then have "real_of_int m < 2 ^ 53" by (simp add: power_int_minus field_simps)
  then have "real_of_int m < real_of_int (2 ^ 53)" by simp
  then have "m < 2 ^ 53" by (simp only: of_int_less_iff)
  then have "m \<le> 2 ^ 53 - 1" by simp
  then have "real_of_int m \<le> real_of_int (2 ^ 53 - 1)" by (simp only: of_int_le_iff)
  then have "real_of_int m \<le> 2 ^ 53 - 1" by simp
  then have "of_int m * 2 powi (- 53) \<le> (1::real) - 2 powi (- 53)"
    by (simp add: power_int_minus field_simps)
  with r show ?thesis by simp
qed


lemma squeeze_half:
  fixes a b c :: real
  assumes "a \<le> b - c" "1 / 2 \<le> c" "\<not> a < b - 1 / 2"
  shows "c = 1 / 2 \<and> a = b - 1 / 2"
  using assms by linarith

lemma round_even_upper: "real_of_int (round_even z) \<le> z + 1 / 2"
proof (cases "z - of_int \<lfloor>z\<rfloor> < 1 / 2")
  case True
  then have "round_even z = \<lfloor>z\<rfloor>" by (simp add: round_even_def Let_def)
  then have "real_of_int (round_even z) = real_of_int \<lfloor>z\<rfloor>" by simp
  with of_int_floor_le [of z] show ?thesis by linarith
next
  case False
  from round_even_cases [of z] have "round_even z \<le> \<lfloor>z\<rfloor> + 1" by auto
  then have "real_of_int (round_even z) \<le> real_of_int (\<lfloor>z\<rfloor> + 1)"
    by (simp only: of_int_le_iff)
  then have "real_of_int (round_even z) \<le> real_of_int \<lfloor>z\<rfloor> + 1" by simp
  with False show ?thesis by linarith
qed

lemma pow2_shift:
  assumes "k \<le> e"
  shows "(2::real) powi (e - 52) = 2 powi (k - 52) * 2 ^ nat (e - k)"
proof -
  have a: "(2::real) ^ nat (e - k) = 2 powi (e - k)"
    using assms by (simp add: power_int_def)
  have "(2::real) powi ((k - 52) + (e - k)) = 2 powi (k - 52) * 2 powi (e - k)"
    by (rule power_int_add) simp
  then show ?thesis by (simp add: a)
qed

lemma pow2_52: "(2::real) powi (e - 52) * 2 ^ 52 = 2 powi e"
proof -
  have "(2::real) powi ((e - 52) + 52) = 2 powi (e - 52) * 2 powi 52"
    by (rule power_int_add) simp
  then show ?thesis by simp
qed

lemma pow2_53: "(2::real) powi (e - 52) * 2 ^ 53 = 2 powi (e + 1)"
proof -
  have "(2::real) powi ((e - 52) + 53) = 2 powi (e - 52) * 2 powi 53"
    by (rule power_int_add) simp
  then show ?thesis by (simp add: algebra_simps)
qed

text \<open>
  A double \<open>T = M * 2\<^sup>e\<^sup>-\<^sup>5\<^sup>2\<close> of exponent \<open>e \<ge> 0\<close> times a fraction of at most
  \<open>1 - 2\<^sup>-\<^sup>5\<^sup>3\<close> rounds to a double below \<open>T\<close>.
\<close>

lemma rnd64_fraction_below_double:
  fixes T r :: real and M e :: int
  assumes T: "T = of_int M * 2 powi (e - 52)" and M: "2 ^ 52 \<le> M" "M \<le> 2 ^ 53"
    and e: "0 \<le> e" and r: "0 \<le> r" "r \<le> 1 - 2 powi (- 53)"
  shows "rnd64 (T * r) < T \<and> (2 ^ 52 < M \<longrightarrow> rnd64 (T * r) \<le> T - 2 powi (e - 52))"
proof -
  define u where "u = (2::real) powi (e - 52)"
  have upos: "0 < u" unfolding u_def by (rule pow2_pos)
  have Tu: "T = of_int M * u" by (simp add: T u_def)
  from M(1) have "real_of_int (2 ^ 52) \<le> real_of_int M" by (simp only: of_int_le_iff)
  then have M52: "2 ^ 52 \<le> real_of_int M" by simp
  from M(2) have "real_of_int M \<le> real_of_int (2 ^ 53)" by (simp only: of_int_le_iff)
  then have M53: "real_of_int M \<le> 2 ^ 53" by simp
  have u52: "u * 2 ^ 52 = 2 powi e" by (simp only: u_def pow2_52)
  have u53: "u * 2 ^ 53 = 2 powi (e + 1)" by (simp only: u_def pow2_53)
  have Tlow: "2 powi e \<le> T"
  proof -
    have "u * 2 ^ 52 \<le> u * real_of_int M" using M52 upos by (simp only: mult_le_cancel_left_pos)
    then show ?thesis using u52 by (simp add: Tu mult.commute)
  qed
  have Tup: "T \<le> 2 powi (e + 1)"
  proof -
    have "u * real_of_int M \<le> u * 2 ^ 53" using M53 upos by (simp only: mult_le_cancel_left_pos)
    then show ?thesis using u53 by (simp add: Tu mult.commute)
  qed
  have Tpos: "0 < T" using Tlow pow2_pos [of e] by (rule less_le_trans [rotated])
  have uT: "u \<le> T"
  proof -
    have "u * 1 \<le> u * real_of_int M" using M52 upos by (simp only: mult_le_cancel_left_pos) simp
    then show ?thesis by (simp add: Tu mult.commute)
  qed
  have strictM: "T - u \<ge> 2 powi e" if "2 ^ 52 < M"
  proof -
    from that have "2 ^ 52 + 1 \<le> M" by simp
    then have "real_of_int (2 ^ 52 + 1) \<le> real_of_int M" by (simp only: of_int_le_iff)
    then have "2 ^ 52 + 1 \<le> real_of_int M" by simp
    then have "u * (2 ^ 52 + 1) \<le> u * real_of_int M"
      using upos by (simp only: mult_le_cancel_left_pos)
    then have "u * 2 ^ 52 + u \<le> T" by (simp add: Tu algebra_simps)
    then show ?thesis using u52 by simp
  qed
  show ?thesis
  proof (cases "T * r = 0")
    case True
    have "rnd64 (T * r) = 0" by (simp add: True rnd64_def)
    with Tpos uT show ?thesis by (simp add: u_def)
  next
    case False
    let ?x = "T * r"
    have xpos: "0 < ?x" using False Tpos r(1) by (simp add: less_le)
    have r1: "r < 1" using r(2) pow2_pos [of "- 53"] by simp
    have xT: "?x < T" using Tpos r1 by simp
    from binade_exists [OF False] obtain ex
      where ex: "2 powi ex \<le> \<bar>?x\<bar>" "\<bar>?x\<bar> < 2 powi (ex + 1)" by blast
    have exl: "2 powi ex \<le> ?x" using ex(1) xpos by simp
    have exu: "?x < 2 powi (ex + 1)" using ex(2) xpos by simp
    have "(2::real) powi ex < 2 powi (e + 1)"
      by (rule le_less_trans [OF exl less_le_trans [OF xT Tup]])
    then have exe: "ex \<le> e" using pow2_less_imp [of ex "e + 1"] by simp
    define k where "k = max (- 1022) ex"
    have kx: "expo ?x = k" unfolding k_def by (rule expo_eq [OF ex])
    have ke: "k \<le> e" using exe e by (simp add: k_def)
    have exk: "ex \<le> k" by (simp add: k_def)
    define ux where "ux = (2::real) powi (k - 52)"
    define n where "n = nat (e - k)"
    define M' where "M' = M * 2 ^ n"
    have uxpos: "0 < ux" unfolding ux_def by (rule pow2_pos)
    have uux: "u = ux * 2 ^ n" unfolding u_def ux_def n_def using ke by (rule pow2_shift)
    have MT: "of_int M' * ux = T" by (simp add: M'_def Tu uux)
    have xu: "?x / ux = of_int M' * r"
    proof -
      have "?x / ux = of_int M' * ux * r / ux" by (simp only: MT)
      then show ?thesis using uxpos by simp
    qed
    have M'52: "2 ^ 52 \<le> real_of_int M'"
    proof -
      have "(1::real) \<le> 2 ^ n" by simp
      then have a: "real_of_int M * 1 \<le> real_of_int M * 2 ^ n"
        using M52 by (intro mult_left_mono) simp_all
      have "2 ^ 52 \<le> real_of_int M * 2 ^ n" using M52 a by linarith
      then show ?thesis by (simp add: M'_def)
    qed
    have M'pos: "0 < real_of_int M'" using M'52 by (rule less_le_trans [rotated]) simp
    have half: "1 / 2 \<le> real_of_int M' * 2 powi (- 53)"
      using M'52 by (simp add: power_int_minus field_simps)
    have le: "of_int M' * r \<le> of_int M' - of_int M' * 2 powi (- 53)"
    proof -
      have "of_int M' * r \<le> of_int M' * (1 - 2 powi (- 53))"
        using r(2) M'pos by (simp only: mult_le_cancel_left_pos)
      then show ?thesis by (simp add: algebra_simps)
    qed
    have strict: "of_int M' * r < of_int M' - 1 / 2"
    proof (rule ccontr)
      assume "\<not> of_int M' * r < of_int M' - 1 / 2"
      with le half have "real_of_int M' * 2 powi (- 53) = 1 / 2
          \<and> of_int M' * r = real_of_int M' - 1 / 2"
        by (rule squeeze_half)
      then have eq: "real_of_int M' * 2 powi (- 53) = 1 / 2" by blast
      from eq have M2: "real_of_int M' = 2 ^ 52" by (simp add: power_int_minus field_simps)
      have "T = ux * 2 ^ 52" using MT M2 by (simp add: mult.commute)
      then have Tk: "T = 2 powi k" by (simp only: ux_def pow2_52)
      with Tlow have "e \<le> k" using pow2_le_imp [of e k] by simp
      with ke have "k = e" by simp
      with e have "k = ex" by (simp add: k_def max_def split: if_splits)
      with exl Tk have "T \<le> ?x" by simp
      with xT show False by simp
    qed
    have "round_even (?x / ux) \<le> M' - 1"
      using strict by (simp only: xu) (rule round_even_below_half)
    then have "real_of_int (round_even (?x / ux)) \<le> real_of_int (M' - 1)"
      by (simp only: of_int_le_iff)
    then have "real_of_int (round_even (?x / ux)) * ux \<le> real_of_int (M' - 1) * ux"
      using uxpos by (simp only: mult_le_cancel_right_pos)
    also have "\<dots> = T - ux" using MT by (simp add: algebra_simps)
    finally have yle: "real_of_int (round_even (?x / ux)) * ux \<le> T - ux" .
    have y: "rnd64 ?x = of_int (round_even (?x / ux)) * ux"
      using False kx by (simp add: rnd64_def ux_def)
    have first: "rnd64 ?x < T" using yle uxpos by (simp add: y)
    have second: "rnd64 ?x \<le> T - u" if big: "2 ^ 52 < M"
    proof (cases "k = e")
      case True
      then have "ux = u" by (simp add: ux_def u_def)
      with yle show ?thesis by (simp add: y)
    next
      case False
      with ke have k1: "k + 1 \<le> e" by simp
      have "?x < 2 powi (k + 1)"
        using exu pow2_mono [of "ex + 1" "k + 1"] exk by simp
      also have "\<dots> = ux * 2 ^ 53" by (simp only: ux_def pow2_53)
      finally have "?x / ux < 2 ^ 53" using uxpos by (simp add: field_simps)
      then have "?x / ux \<le> real_of_int (2 ^ 53)" by simp
      then have "round_even (?x / ux) \<le> 2 ^ 53" by (rule round_even_le_int)
      then have "real_of_int (round_even (?x / ux)) \<le> real_of_int (2 ^ 53)"
        by (simp only: of_int_le_iff)
      then have "real_of_int (round_even (?x / ux)) \<le> 2 ^ 53" by simp
      then have "real_of_int (round_even (?x / ux)) * ux \<le> 2 ^ 53 * ux"
        using uxpos by (simp only: mult_le_cancel_right_pos)
      also have "\<dots> = 2 powi (k + 1)"
        using pow2_53 [of k] by (simp only: ux_def mult.commute)
      also have "\<dots> \<le> 2 powi e" using k1 by (rule pow2_mono)
      also have "\<dots> \<le> T - u" using big by (rule strictM)
      finally show ?thesis by (simp add: y)
    qed
    from first second show ?thesis by (simp add: u_def)
  qed
qed

text \<open>
  A positive share count, converted to a float and multiplied by a fraction of at most
  \<open>1 - 2\<^sup>-\<^sup>5\<^sup>3\<close>, gives a double below the share count, not above its float.
\<close>

lemma rnd64_fraction_of_int:
  assumes S: "0 < S" and r: "0 \<le> r" "r \<le> 1 - 2 powi (- 53)"
  shows "rnd64 (rnd64 (of_int S) * r) < of_int S"
    and "rnd64 (rnd64 (of_int S) * r) < rnd64 (of_int S)"
    and "0 < rnd64 (of_int S)"
proof -
  let ?s = "real_of_int S"
  from S have "real_of_int 1 \<le> real_of_int S" by simp
  then have s1: "1 \<le> ?s" by simp
  then have spos: "0 < ?s" by simp
  then have snz: "?s \<noteq> 0" by simp
  from binade_exists [OF snz] obtain e
    where e: "2 powi e \<le> \<bar>?s\<bar>" "\<bar>?s\<bar> < 2 powi (e + 1)" by blast
  have el: "2 powi e \<le> ?s" using e(1) spos by simp
  have eu: "?s < 2 powi (e + 1)" using e(2) spos by simp
  have "(2::real) powi 0 < 2 powi (e + 1)" using s1 eu by simp
  then have e0: "0 \<le> e" using pow2_less_imp [of 0 "e + 1"] by simp
  then have ex: "expo ?s = e" using expo_eq [OF e] by simp
  define u where "u = (2::real) powi (e - 52)"
  define M where "M = round_even (?s / u)"
  have upos: "0 < u" unfolding u_def by (rule pow2_pos)
  have T: "rnd64 ?s = of_int M * 2 powi (e - 52)"
    using snz ex by (simp add: rnd64_def M_def u_def)
  have u52: "u * 2 ^ 52 = 2 powi e" by (simp only: u_def pow2_52)
  have u53: "u * 2 ^ 53 = 2 powi (e + 1)" by (simp only: u_def pow2_53)
  have "u * 2 ^ 52 \<le> ?s" using el by (simp only: u52)
  then have "real_of_int (2 ^ 52) \<le> ?s / u" using upos by (simp add: field_simps)
  then have M52: "2 ^ 52 \<le> M" unfolding M_def by (rule round_even_ge_int)
  have "?s < u * 2 ^ 53" using eu by (simp only: u53)
  then have "?s / u \<le> real_of_int (2 ^ 53)" using upos by (simp add: field_simps)
  then have M53: "M \<le> 2 ^ 53" unfolding M_def by (rule round_even_le_int)
  note G = rnd64_fraction_below_double [OF T M52 M53 e0 r]
  from G show lt: "rnd64 (rnd64 ?s * r) < rnd64 ?s" by blast
  have near: "rnd64 ?s - u / 2 \<le> ?s"
  proof -
    have "real_of_int M \<le> ?s / u + 1 / 2" unfolding M_def by (rule round_even_upper)
    then have "real_of_int M * u \<le> (?s / u + 1 / 2) * u"
      using upos by (simp only: mult_le_cancel_right_pos)
    also have "\<dots> = ?s + u / 2" using upos by (simp add: field_simps)
    finally show ?thesis by (simp add: T u_def)
  qed
  show "rnd64 (rnd64 ?s * r) < ?s"
  proof (cases "2 ^ 52 < M")
    case True
    with G have "rnd64 (rnd64 ?s * r) \<le> rnd64 ?s - u" by (simp add: u_def)
    also have "\<dots> < rnd64 ?s - u / 2" using upos by simp
    finally show ?thesis using near by simp
  next
    case False
    with M52 have "M = 2 ^ 52" by simp
    then have "rnd64 ?s = u * 2 ^ 52" by (simp add: T u_def mult.commute)
    then have "rnd64 ?s = 2 powi e" by (simp only: u52)
    with lt el show ?thesis by simp
  qed
  have "0 < real_of_int M" using M52 by simp
  then show "0 < rnd64 ?s" using upos by (simp add: T u_def)
qed

section \<open>Evaluation of the operations at the scenario values\<close>

text \<open>
  Each lemma evaluates one rounded operation; the comment gives the operation in the
  shortest decimal notation of its double operands and result.
\<close>

text \<open>The literal \<^verbatim>\<open>0.02\<close>\<close>

lemma dbl_0_02 [float_eval]:
  "dbl (1 / 50) = 5764607523034235 / 288230376151711744"
  unfolding dbl_def
  by (rule trans [OF rnd64_eval [where e = "- 6" and m = 5764607523034235]])
     (simp_all add: round_even_def power_int_minus)

text \<open>The literal \<^verbatim>\<open>0.8\<close>\<close>

lemma dbl_0_8 [float_eval]:
  "dbl (4 / 5) = 3602879701896397 / 4503599627370496"
  unfolding dbl_def
  by (rule trans [OF rnd64_eval [where e = "- 1" and m = 7205759403792794]])
     (simp_all add: round_even_def power_int_minus)

text \<open>The literal \<^verbatim>\<open>0.15\<close>\<close>

lemma dbl_0_15 [float_eval]:
  "dbl (3 / 20) = 5404319552844595 / 36028797018963968"
  unfolding dbl_def
  by (rule trans [OF rnd64_eval [where e = "- 3" and m = 5404319552844595]])
     (simp_all add: round_even_def power_int_minus)

text \<open>The literal \<^verbatim>\<open>0.005\<close>\<close>

lemma dbl_0_005 [float_eval]:
  "dbl (1 / 200) = 5764607523034235 / 1152921504606846976"
  unfolding dbl_def
  by (rule trans [OF rnd64_eval [where e = "- 8" and m = 5764607523034235]])
     (simp_all add: round_even_def power_int_minus)

text \<open>\<^verbatim>\<open>1000 * 0.8 = 800.0\<close>\<close>

lemma fmul_1000_0_8 [float_eval]:
  "fmul 1000 (3602879701896397 / 4503599627370496) = 800"
  unfolding fmul_def
  by (rule trans [OF rnd64_eval [where e = 9 and m = 7036874417766400]])
     (simp_all add: round_even_def power_int_minus)

text \<open>\<^verbatim>\<open>100000 * 0.02 = 2000.0\<close>\<close>

lemma fmul_100000_0_02 [float_eval]:
  "fmul 100000 (5764607523034235 / 288230376151711744) = 2000"
  unfolding fmul_def
  by (rule trans [OF rnd64_eval [where e = 10 and m = 8796093022208000]])
     (simp_all add: round_even_def power_int_minus)

text \<open>\<^verbatim>\<open>2 * 2 = 4.0\<close>\<close>

lemma fmul_2_2 [float_eval]:
  "fmul 2 2 = 4"
  unfolding fmul_def
  by (rule trans [OF rnd64_eval [where e = 2 and m = 4503599627370496]])
     (simp_all add: round_even_def power_int_minus)

text \<open>\<^verbatim>\<open>2000 / 4 = 500.0\<close>\<close>

lemma fdivide_2000_4 [float_eval]:
  "fdivide 2000 4 = 500"
  unfolding fdivide_def
  by (rule trans [OF rnd64_eval [where e = 8 and m = 8796093022208000]])
     (simp_all add: round_even_def power_int_minus)

text \<open>\<^verbatim>\<open>100000 * 0.8 = 80000.0\<close>\<close>

lemma fmul_100000_0_8 [float_eval]:
  "fmul 100000 (3602879701896397 / 4503599627370496) = 80000"
  unfolding fmul_def
  by (rule trans [OF rnd64_eval [where e = 16 and m = 5497558138880000]])
     (simp_all add: round_even_def power_int_minus)

text \<open>\<^verbatim>\<open>80000 / 50 = 1600.0\<close>\<close>

lemma fdivide_80000_50 [float_eval]:
  "fdivide 80000 50 = 1600"
  unfolding fdivide_def
  by (rule trans [OF rnd64_eval [where e = 10 and m = 7036874417766400]])
     (simp_all add: round_even_def power_int_minus)

text \<open>The literal \<^verbatim>\<open>0.27\<close>\<close>

lemma dbl_0_27 [float_eval]:
  "dbl (27 / 100) = 607985949695017 / 2251799813685248"
  unfolding dbl_def
  by (rule trans [OF rnd64_eval [where e = "- 2" and m = 4863887597560136]])
     (simp_all add: round_even_def power_int_minus)

text \<open>The literal \<^verbatim>\<open>19.15\<close>\<close>

lemma dbl_19_15 [float_eval]:
  "dbl (383 / 20) = 2695122902004531 / 140737488355328"
  unfolding dbl_def
  by (rule trans [OF rnd64_eval [where e = 4 and m = 5390245804009062]])
     (simp_all add: round_even_def power_int_minus)

text \<open>The literal \<^verbatim>\<open>1.1\<close>\<close>

lemma dbl_1_1 [float_eval]:
  "dbl (11 / 10) = 2476979795053773 / 2251799813685248"
  unfolding dbl_def
  by (rule trans [OF rnd64_eval [where e = 0 and m = 4953959590107546]])
     (simp_all add: round_even_def power_int_minus)

text \<open>\<^verbatim>\<open>24543 * 0.02 = 490.86\<close>\<close>

lemma fmul_24543_0_02 [float_eval]:
  "fmul 24543 (5764607523034235 / 288230376151711744) =
     4317650220881019 / 8796093022208"
  unfolding fmul_def
  by (rule trans [OF rnd64_eval [where e = 8 and m = 8635300441762038]])
     (simp_all add: round_even_def power_int_minus)

text \<open>\<^verbatim>\<open>0.27 * 2 = 0.54\<close>\<close>

lemma fmul_0_27_2 [float_eval]:
  "fmul (607985949695017 / 2251799813685248) 2 = 607985949695017 / 1125899906842624"
  unfolding fmul_def
  by (rule trans [OF rnd64_eval [where e = "- 1" and m = 4863887597560136]])
     (simp_all add: round_even_def power_int_minus)

text \<open>\<^verbatim>\<open>490.86 / 0.54 = 909.0\<close>\<close>

lemma fdivide_490_86_0_54 [float_eval]:
  "fdivide (4317650220881019 / 8796093022208) (607985949695017 / 1125899906842624) =
     909"
  unfolding fdivide_def
  by (rule trans [OF rnd64_eval [where e = 9 and m = 7995648557187072]])
     (simp_all add: round_even_def power_int_minus)

text \<open>\<^verbatim>\<open>24543 * 0.8 = 19634.4\<close>\<close>

lemma fmul_24543_0_8 [float_eval]:
  "fmul 24543 (3602879701896397 / 4503599627370496) = 2698531388050637 / 137438953472"
  unfolding fmul_def
  by (rule trans [OF rnd64_eval [where e = 14 and m = 5397062776101274]])
     (simp_all add: round_even_def power_int_minus)

text \<open>\<^verbatim>\<open>19634.4 / 19.15 = 1025.295039164491\<close>\<close>

lemma fdivide_19634_4_19_15 [float_eval]:
  "fdivide (2698531388050637 / 137438953472) (2695122902004531 / 140737488355328) =
     4509295269849629 / 4398046511104"
  unfolding fdivide_def
  by (rule trans [OF rnd64_eval [where e = 10 and m = 4509295269849629]])
     (simp_all add: round_even_def power_int_minus)

text \<open>\<^verbatim>\<open>110000 * 0.02 = 2200.0\<close>\<close>

lemma fmul_110000_0_02 [float_eval]:
  "fmul 110000 (5764607523034235 / 288230376151711744) = 2200"
  unfolding fmul_def
  by (rule trans [OF rnd64_eval [where e = 11 and m = 4837851162214400]])
     (simp_all add: round_even_def power_int_minus)

text \<open>\<^verbatim>\<open>1.1 * 2 = 2.2\<close>\<close>

lemma fmul_1_1_2 [float_eval]:
  "fmul (2476979795053773 / 2251799813685248) 2 = 2476979795053773 / 1125899906842624"
  unfolding fmul_def
  by (rule trans [OF rnd64_eval [where e = 1 and m = 4953959590107546]])
     (simp_all add: round_even_def power_int_minus)

text \<open>\<^verbatim>\<open>2200 / 2.2 = 999.9999999999999\<close>\<close>

lemma fdivide_2200_2_2 [float_eval]:
  "fdivide 2200 (2476979795053773 / 1125899906842624) =
     8796093022207999 / 8796093022208"
  unfolding fdivide_def
  by (rule trans [OF rnd64_eval [where e = 9 and m = 8796093022207999]])
     (simp_all add: round_even_def power_int_minus)

text \<open>\<^verbatim>\<open>110000 * 0.8 = 88000.0\<close>\<close>

lemma fmul_110000_0_8 [float_eval]:
  "fmul 110000 (3602879701896397 / 4503599627370496) = 88000"
  unfolding fmul_def
  by (rule trans [OF rnd64_eval [where e = 16 and m = 6047313952768000]])
     (simp_all add: round_even_def power_int_minus)

text \<open>\<^verbatim>\<open>88000 / 50 = 1760.0\<close>\<close>

lemma fdivide_88000_50 [float_eval]:
  "fdivide 88000 50 = 1760"
  unfolding fdivide_def
  by (rule trans [OF rnd64_eval [where e = 10 and m = 7740561859543040]])
     (simp_all add: round_even_def power_int_minus)

text \<open>\<^verbatim>\<open>-100000 * 0.02 = -2000.0\<close>\<close>

lemma fmul_m100000_0_02 [float_eval]:
  "fmul (- 100000) (5764607523034235 / 288230376151711744) = - 2000"
  unfolding fmul_def
  by (rule trans [OF rnd64_eval [where e = 10 and m = "- 8796093022208000"]])
     (simp_all add: round_even_def power_int_minus)

text \<open>\<^verbatim>\<open>3 * 2 = 6.0\<close>\<close>

lemma fmul_3_2 [float_eval]:
  "fmul 3 2 = 6"
  unfolding fmul_def
  by (rule trans [OF rnd64_eval [where e = 2 and m = 6755399441055744]])
     (simp_all add: round_even_def power_int_minus)

text \<open>\<^verbatim>\<open>2000 / 6 = 333.3333333333333\<close>\<close>

lemma fdivide_2000_6 [float_eval]:
  "fdivide 2000 6 = 5864062014805333 / 17592186044416"
  unfolding fdivide_def
  by (rule trans [OF rnd64_eval [where e = 8 and m = 5864062014805333]])
     (simp_all add: round_even_def power_int_minus)

text \<open>\<^verbatim>\<open>80000 / 100 = 800.0\<close>\<close>

lemma fdivide_80000_100 [float_eval]:
  "fdivide 80000 100 = 800"
  unfolding fdivide_def
  by (rule trans [OF rnd64_eval [where e = 9 and m = 7036874417766400]])
     (simp_all add: round_even_def power_int_minus)

text \<open>\<^verbatim>\<open>100 - 6 = 94.0\<close>\<close>

lemma fsub_100_6 [float_eval]:
  "fsub 100 6 = 94"
  unfolding fsub_def
  by (rule trans [OF rnd64_eval [where e = 6 and m = 6614661952700416]])
     (simp_all add: round_even_def power_int_minus)

text \<open>\<^verbatim>\<open>101 - 6 = 95.0\<close>\<close>

lemma fsub_101_6 [float_eval]:
  "fsub 101 6 = 95"
  unfolding fsub_def
  by (rule trans [OF rnd64_eval [where e = 6 and m = 6685030696878080]])
     (simp_all add: round_even_def power_int_minus)

text \<open>\<^verbatim>\<open>100 - 94 = 6.0\<close>\<close>

lemma fsub_100_94 [float_eval]:
  "fsub 100 94 = 6"
  unfolding fsub_def
  by (rule trans [OF rnd64_eval [where e = 2 and m = 6755399441055744]])
     (simp_all add: round_even_def power_int_minus)

text \<open>\<^verbatim>\<open>110 - 100 = 10.0\<close>\<close>

lemma fsub_110_100 [float_eval]:
  "fsub 110 100 = 10"
  unfolding fsub_def
  by (rule trans [OF rnd64_eval [where e = 3 and m = 5629499534213120]])
     (simp_all add: round_even_def power_int_minus)

text \<open>The literal \<^verbatim>\<open>0.6\<close>\<close>

lemma dbl_0_6 [float_eval]:
  "dbl (3 / 5) = 5404319552844595 / 9007199254740992"
  unfolding dbl_def
  by (rule trans [OF rnd64_eval [where e = "- 1" and m = 5404319552844595]])
     (simp_all add: round_even_def power_int_minus)

text \<open>\<^verbatim>\<open>6 * 0.6 = 3.5999999999999996\<close>\<close>

lemma fmul_6_0_6 [float_eval]:
  "fmul 6 (5404319552844595 / 9007199254740992) = 2026619832316723 / 562949953421312"
  unfolding fmul_def
  by (rule trans [OF rnd64_eval [where e = 1 and m = 8106479329266892]])
     (simp_all add: round_even_def power_int_minus)

text \<open>The literal \<^verbatim>\<open>1.001\<close>\<close>

lemma dbl_1_001 [float_eval]:
  "dbl (1001 / 1000) = 2254051613498933 / 2251799813685248"
  unfolding dbl_def
  by (rule trans [OF rnd64_eval [where e = 0 and m = 4508103226997866]])
     (simp_all add: round_even_def power_int_minus)

text \<open>\<^verbatim>\<open>100 * 1.001 = 100.1\<close>\<close>

lemma fmul_100_1_001 [float_eval]:
  "fmul 100 (2254051613498933 / 2251799813685248) = 3521955646092083 / 35184372088832"
  unfolding fmul_def
  by (rule trans [OF rnd64_eval [where e = 6 and m = 7043911292184166]])
     (simp_all add: round_even_def power_int_minus)

text \<open>\<^verbatim>\<open>1 * 2 = 2.0\<close>\<close>

lemma fmul_1_2 [float_eval]:
  "fmul 1 2 = 2"
  unfolding fmul_def
  by (rule trans [OF rnd64_eval [where e = 1 and m = 4503599627370496]])
     (simp_all add: round_even_def power_int_minus)

text \<open>\<^verbatim>\<open>110 - 2 = 108.0\<close>\<close>

lemma fsub_110_2 [float_eval]:
  "fsub 110 2 = 108"
  unfolding fsub_def
  by (rule trans [OF rnd64_eval [where e = 6 and m = 7599824371187712]])
     (simp_all add: round_even_def power_int_minus)

text \<open>\<^verbatim>\<open>1 + 0.005 = 1.005\<close>\<close>

lemma fadd_1_0_005 [float_eval]:
  "fadd 1 (5764607523034235 / 1152921504606846976) =
     1131529406376837 / 1125899906842624"
  unfolding fadd_def
  by (rule trans [OF rnd64_eval [where e = 0 and m = 4526117625507348]])
     (simp_all add: round_even_def power_int_minus)

text \<open>\<^verbatim>\<open>100.1 * 1.005 = 100.60049999999998\<close>\<close>

lemma fmul_100_1_1_005 [float_eval]:
  "fmul (3521955646092083 / 35184372088832) (1131529406376837 / 1125899906842624) =
     3539565424322543 / 35184372088832"
  unfolding fmul_def
  by (rule trans [OF rnd64_eval [where e = 6 and m = 7079130848645086]])
     (simp_all add: round_even_def power_int_minus)

text \<open>\<^verbatim>\<open>103 - 2 = 101.0\<close>\<close>

lemma fsub_103_2 [float_eval]:
  "fsub 103 2 = 101"
  unfolding fsub_def
  by (rule trans [OF rnd64_eval [where e = 6 and m = 7107243161944064]])
     (simp_all add: round_even_def power_int_minus)

text \<open>\<^verbatim>\<open>94 * 1.005 = 94.46999999999998\<close>\<close>

lemma fmul_94_1_005 [float_eval]:
  "fmul 94 (1131529406376837 / 1125899906842624) = 6647735262463917 / 70368744177664"
  unfolding fmul_def
  by (rule trans [OF rnd64_eval [where e = 6 and m = 6647735262463917]])
     (simp_all add: round_even_def power_int_minus)

text \<open>The literal \<^verbatim>\<open>198.34\<close>\<close>

lemma dbl_198_34 [float_eval]:
  "dbl (9917 / 50) = 6978468360098939 / 35184372088832"
  unfolding dbl_def
  by (rule trans [OF rnd64_eval [where e = 7 and m = 6978468360098939]])
     (simp_all add: round_even_def power_int_minus)

text \<open>The literal \<^verbatim>\<open>4.7\<close>\<close>

lemma dbl_4_7 [float_eval]:
  "dbl (47 / 10) = 5291729562160333 / 1125899906842624"
  unfolding dbl_def
  by (rule trans [OF rnd64_eval [where e = 2 and m = 5291729562160333]])
     (simp_all add: round_even_def power_int_minus)

text \<open>\<^verbatim>\<open>4.7 * 2 = 9.4\<close>\<close>

lemma fmul_4_7_2 [float_eval]:
  "fmul (5291729562160333 / 1125899906842624) 2 = 5291729562160333 / 562949953421312"
  unfolding fmul_def
  by (rule trans [OF rnd64_eval [where e = 3 and m = 5291729562160333]])
     (simp_all add: round_even_def power_int_minus)

text \<open>\<^verbatim>\<open>198.34 - 9.4 = 188.94\<close>\<close>

lemma fsub_198_34_9_4 [float_eval]:
  "fsub (6978468360098939 / 35184372088832) (5291729562160333 / 562949953421312) =
     3323867631231959 / 17592186044416"
  unfolding fsub_def
  by (rule trans [OF rnd64_eval [where e = 7 and m = 6647735262463918]])
     (simp_all add: round_even_def power_int_minus)

text \<open>\<^verbatim>\<open>188 * 1.005 = 188.93999999999997\<close>\<close>

lemma fmul_188_1_005 [float_eval]:
  "fmul 188 (1131529406376837 / 1125899906842624) = 6647735262463917 / 35184372088832"
  unfolding fmul_def
  by (rule trans [OF rnd64_eval [where e = 7 and m = 6647735262463917]])
     (simp_all add: round_even_def power_int_minus)

text \<open>The literal \<^verbatim>\<open>188.94\<close>\<close>

lemma dbl_188_94 [float_eval]:
  "dbl (9447 / 50) = 3323867631231959 / 17592186044416"
  unfolding dbl_def
  by (rule trans [OF rnd64_eval [where e = 7 and m = 6647735262463918]])
     (simp_all add: round_even_def power_int_minus)

text \<open>\<^verbatim>\<open>188.94 - 188 = 0.9399999999999977\<close>\<close>

lemma fsub_188_94_188 [float_eval]:
  "fsub (3323867631231959 / 17592186044416) 188 = 16536654881751 / 17592186044416"
  unfolding fsub_def
  by (rule trans [OF rnd64_eval [where e = "- 1" and m = 8466767299456512]])
     (simp_all add: round_even_def power_int_minus)

text \<open>\<^verbatim>\<open>0.005 * 188 = 0.9400000000000001\<close>\<close>

lemma fmul_0_005_188 [float_eval]:
  "fmul (5764607523034235 / 1152921504606846976) 188 =
     8466767299456533 / 9007199254740992"
  unfolding fmul_def
  by (rule trans [OF rnd64_eval [where e = "- 1" and m = 8466767299456533]])
     (simp_all add: round_even_def power_int_minus)

text \<open>\<^verbatim>\<open>1000 * 0.15 = 150.0\<close>\<close>

lemma fmul_1000_0_15 [float_eval]:
  "fmul 1000 (5404319552844595 / 36028797018963968) = 150"
  unfolding fmul_def
  by (rule trans [OF rnd64_eval [where e = 7 and m = 5277655813324800]])
     (simp_all add: round_even_def power_int_minus)

text \<open>\<^verbatim>\<open>98 - 2 = 96.0\<close>\<close>

lemma fsub_98_2 [float_eval]:
  "fsub 98 2 = 96"
  unfolding fsub_def
  by (rule trans [OF rnd64_eval [where e = 6 and m = 6755399441055744]])
     (simp_all add: round_even_def power_int_minus)

text \<open>\<^verbatim>\<open>1000 * 1 = 1000.0\<close>\<close>

lemma fmul_1000_1 [float_eval]:
  "fmul 1000 1 = 1000"
  unfolding fmul_def
  by (rule trans [OF rnd64_eval [where e = 9 and m = 8796093022208000]])
     (simp_all add: round_even_def power_int_minus)

text \<open>The literal \<^verbatim>\<open>0.35\<close>\<close>

lemma dbl_0_35 [float_eval]:
  "dbl (7 / 20) = 3152519739159347 / 9007199254740992"
  unfolding dbl_def
  by (rule trans [OF rnd64_eval [where e = "- 2" and m = 6305039478318694]])
     (simp_all add: round_even_def power_int_minus)

text \<open>\<^verbatim>\<open>180 * 0.35 = 62.99999999999999\<close>\<close>

lemma fmul_180_0_35 [float_eval]:
  "fmul 180 (3152519739159347 / 9007199254740992) = 8866461766385663 / 140737488355328"
  unfolding fmul_def
  by (rule trans [OF rnd64_eval [where e = 5 and m = 8866461766385663]])
     (simp_all add: round_even_def power_int_minus)

text \<open>\<^verbatim>\<open>104 - 100 = 4.0\<close>\<close>

lemma fsub_104_100 [float_eval]:
  "fsub 104 100 = 4"
  unfolding fsub_def
  by (rule trans [OF rnd64_eval [where e = 2 and m = 4503599627370496]])
     (simp_all add: round_even_def power_int_minus)

text \<open>The literal \<^verbatim>\<open>103.6\<close>\<close>

lemma dbl_103_6 [float_eval]:
  "dbl (518 / 5) = 3645100948402995 / 35184372088832"
  unfolding dbl_def
  by (rule trans [OF rnd64_eval [where e = 6 and m = 7290201896805990]])
     (simp_all add: round_even_def power_int_minus)

text \<open>\<^verbatim>\<open>103.6 - 100 = 3.5999999999999943\<close>\<close>

lemma fsub_103_6_100 [float_eval]:
  "fsub (3645100948402995 / 35184372088832) 100 = 126663739519795 / 35184372088832"
  unfolding fsub_def
  by (rule trans [OF rnd64_eval [where e = 1 and m = 8106479329266880]])
     (simp_all add: round_even_def power_int_minus)

text \<open>The literal \<^verbatim>\<open>8.74\<close>\<close>

lemma dbl_8_74 [float_eval]:
  "dbl (437 / 50) = 4920182592902267 / 562949953421312"
  unfolding dbl_def
  by (rule trans [OF rnd64_eval [where e = 3 and m = 4920182592902267]])
     (simp_all add: round_even_def power_int_minus)

text \<open>The literal \<^verbatim>\<open>0.29\<close>\<close>

lemma dbl_0_29 [float_eval]:
  "dbl (29 / 100) = 5224175567749775 / 18014398509481984"
  unfolding dbl_def
  by (rule trans [OF rnd64_eval [where e = "- 2" and m = 5224175567749775]])
     (simp_all add: round_even_def power_int_minus)

text \<open>The literal \<^verbatim>\<open>13.81\<close>\<close>

lemma dbl_13_81 [float_eval]:
  "dbl (1381 / 100) = 7774338856748319 / 562949953421312"
  unfolding dbl_def
  by (rule trans [OF rnd64_eval [where e = 3 and m = 7774338856748319]])
     (simp_all add: round_even_def power_int_minus)

text \<open>\<^verbatim>\<open>8.74 - 0.29 = 8.450000000000001\<close>\<close>

lemma fsub_8_74_0_29 [float_eval]:
  "fsub (4920182592902267 / 562949953421312) (5224175567749775 / 18014398509481984) =
     4756927106410087 / 562949953421312"
  unfolding fsub_def
  by (rule trans [OF rnd64_eval [where e = 3 and m = 4756927106410087]])
     (simp_all add: round_even_def power_int_minus)

text \<open>\<^verbatim>\<open>13.81 - 8.74 = 5.07\<close>\<close>

lemma fsub_13_81_8_74 [float_eval]:
  "fsub (7774338856748319 / 562949953421312) (4920182592902267 / 562949953421312) =
     713539065961513 / 140737488355328"
  unfolding fsub_def
  by (rule trans [OF rnd64_eval [where e = 2 and m = 5708312527692104]])
     (simp_all add: round_even_def power_int_minus)

text \<open>\<^verbatim>\<open>8.450000000000001 * 0.6 = 5.07\<close>\<close>

lemma fmul_8_450000000000001_0_6 [float_eval]:
  "fmul (4756927106410087 / 562949953421312) (5404319552844595 / 9007199254740992) =
     713539065961513 / 140737488355328"
  unfolding fmul_def
  by (rule trans [OF rnd64_eval [where e = 2 and m = 5708312527692104]])
     (simp_all add: round_even_def power_int_minus)

text \<open>\<^verbatim>\<open>8.74 * 1.001 = 8.74874\<close>\<close>

lemma fmul_8_74_1_001 [float_eval]:
  "fmul (4920182592902267 / 562949953421312) (2254051613498933 / 2251799813685248) =
     4925102775495169 / 562949953421312"
  unfolding fmul_def
  by (rule trans [OF rnd64_eval [where e = 3 and m = 4925102775495169]])
     (simp_all add: round_even_def power_int_minus)

text \<open>The literal \<^verbatim>\<open>100.1\<close>\<close>

lemma dbl_100_1 [float_eval]:
  "dbl (1001 / 10) = 3521955646092083 / 35184372088832"
  unfolding dbl_def
  by (rule trans [OF rnd64_eval [where e = 6 and m = 7043911292184166]])
     (simp_all add: round_even_def power_int_minus)

text \<open>\<^verbatim>\<open>103 - 100 = 3.0\<close>\<close>

lemma fsub_103_100 [float_eval]:
  "fsub 103 100 = 3"
  unfolding fsub_def
  by (rule trans [OF rnd64_eval [where e = 1 and m = 6755399441055744]])
     (simp_all add: round_even_def power_int_minus)

text \<open>\<^verbatim>\<open>5 * 2 = 10.0\<close>\<close>

lemma fmul_5_2 [float_eval]:
  "fmul 5 2 = 10"
  unfolding fmul_def
  by (rule trans [OF rnd64_eval [where e = 3 and m = 5629499534213120]])
     (simp_all add: round_even_def power_int_minus)

text \<open>\<^verbatim>\<open>104 - 10 = 94.0\<close>\<close>

lemma fsub_104_10 [float_eval]:
  "fsub 104 10 = 94"
  unfolding fsub_def
  by (rule trans [OF rnd64_eval [where e = 6 and m = 6614661952700416]])
     (simp_all add: round_even_def power_int_minus)

text \<open>\<^verbatim>\<open>101 * 1.005 = 101.505\<close>\<close>

lemma fmul_101_1_005 [float_eval]:
  "fmul 101 (1131529406376837 / 1125899906842624) = 892847422219223 / 8796093022208"
  unfolding fmul_def
  by (rule trans [OF rnd64_eval [where e = 6 and m = 7142779377753784]])
     (simp_all add: round_even_def power_int_minus)

section \<open>Sizer\<close>

lemma py_int_nonneg: "0 \<le> x \<Longrightarrow> py_int x = \<lfloor>x\<rfloor>"
  by (simp add: py_int_def)

lemma py_int_neg_le: "x < 0 \<Longrightarrow> py_int x \<le> 0"
  by (simp add: py_int_def ceiling_le_zero)

lemma py_int_cases:
  "(py_int x = \<lfloor>x\<rfloor> \<and> 0 \<le> \<lfloor>x\<rfloor>) \<or> (py_int x \<le> 0 \<and> \<lfloor>x\<rfloor> < 0)"
proof (cases "0 \<le> x")
  case True
  then show ?thesis by (simp add: py_int_nonneg)
next
  case False
  then have "x < 0" by simp
  then show ?thesis by (simp add: py_int_neg_le floor_less_zero)
qed

lemma clip_int:
  fixes t m0 fq fc :: int
  assumes "(t = fq \<and> 0 \<le> fq) \<or> (t \<le> 0 \<and> fq < 0)"
    and "(m0 = fc \<and> 0 \<le> fc) \<or> (m0 \<le> 0 \<and> fc < 0)"
  shows "(let m = (if m0 < 0 then 0 else m0); z = min t m in (if z < 0 then 0 else z))
           = max 0 (min fq fc)"
  using assms by (auto simp: Let_def min_def max_def)

lemma clip_trunc_eq_floor:
  "(let m = (if py_int c < 0 then 0 else py_int c); z = min (py_int q) m
    in (if z < 0 then 0 else z)) = max 0 (min \<lfloor>q\<rfloor> \<lfloor>c\<rfloor>)"
  by (rule clip_int [OF py_int_cases py_int_cases])

lemma int_of_quotient_finite:
  assumes "b \<noteq> 0" "fin64 a" "fin64 b" "fin64 (fdivide a b)"
  shows "int_of_quotient a b = Inr (py_int (fdivide a b))"
  using assms by (simp add: int_of_quotient_def Let_def)

lemma int_of_quotient_overflow:
  assumes "b \<noteq> 0" "fin64 a" "fin64 b" "\<not> fin64 (fdivide a b)"
  shows "int_of_quotient a b = Inl OverflowError"
  using assms by (simp add: int_of_quotient_def Let_def)

lemma calculate_risk_size_guarded:
  assumes "0 < a" "0 < cl" "0 < fmul a (atr_stop_mult p)"
    and "fin64 (fmul v (risk_pct p))" "fin64 (fmul a (atr_stop_mult p))"
    and "fin64 (fdivide (fmul v (risk_pct p)) (fmul a (atr_stop_mult p)))"
    and "fin64 (fmul v (max_pos_size p))" "fin64 cl"
    and "fin64 (fdivide (fmul v (max_pos_size p)) cl)"
  shows "calculate_risk_size p v cl a =
     Inr (max 0 (min \<lfloor>fdivide (fmul v (risk_pct p)) (fmul a (atr_stop_mult p))\<rfloor>
                     \<lfloor>fdivide (fmul v (max_pos_size p)) cl\<rfloor>))"
proof -
  let ?q = "fdivide (fmul v (risk_pct p)) (fmul a (atr_stop_mult p))"
  let ?c = "fdivide (fmul v (max_pos_size p)) cl"
  from assms(3) have nz: "fmul a (atr_stop_mult p) \<noteq> 0" by simp
  have q: "int_of_quotient (fmul v (risk_pct p)) (fmul a (atr_stop_mult p)) = Inr (py_int ?q)"
    using nz assms(4,5,6) by (rule int_of_quotient_finite)
  from assms(2) have "cl \<noteq> 0" by simp
  then have c: "int_of_quotient (fmul v (max_pos_size p)) cl = Inr (py_int ?c)"
    using assms(7,8,9) by (rule int_of_quotient_finite)
  from assms(1,2,3) have g: "\<not> (a \<le> 0 \<or> cl \<le> 0)" "\<not> fmul a (atr_stop_mult p) \<le> 0"
    by simp_all
  have "calculate_risk_size p v cl a =
          Inr (let m = (if py_int ?c < 0 then 0 else py_int ?c);
                   z = min (py_int ?q) m
               in (if z < 0 then 0 else z))"
    using g by (simp add: calculate_risk_size_def q c Let_def)
  then show ?thesis
    by (simp only: clip_trunc_eq_floor)
qed

lemmas sizer_defs = calculate_risk_size_def int_of_quotient_def default_params_def py_int_def
  fin64_def Let_def

lemma sizer_scenario: "calculate_risk_size default_params 100000 50 2 = Inr 500"
  by (simp add: sizer_defs float_eval)

text \<open>
  C2 (as amended). With a positive price and ATR and a positive rounded stop distance,
  and as long as the rounded products and quotients are finite, the sizer returns
  \<open>max 0 (min \<lfloor>q\<rfloor> \<lfloor>c\<rfloor>)\<close> where \<open>q\<close> is the binary64 quotient of the rounded products
  \<open>equity * risk_fraction\<close> and \<open>atr * stop_multiplier\<close> and \<open>c\<close> the binary64 quotient of
  the rounded \<open>equity * max_position_fraction\<close> and the price; with equity 100000, risk
  fraction 0.02, ATR 2, multiplier 2, price 50 and cap 0.8 it returns 500.
\<close>

theorem sizer_formula:
  "(0 < cl \<and> 0 < a \<and> 0 < fmul a (atr_stop_mult p)
      \<and> fin64 (fmul v (risk_pct p)) \<and> fin64 (fmul a (atr_stop_mult p))
      \<and> fin64 (fdivide (fmul v (risk_pct p)) (fmul a (atr_stop_mult p)))
      \<and> fin64 (fmul v (max_pos_size p)) \<and> fin64 cl
      \<and> fin64 (fdivide (fmul v (max_pos_size p)) cl) \<longrightarrow>
      calculate_risk_size p v cl a =
        Inr (max 0 (min \<lfloor>fdivide (fmul v (risk_pct p)) (fmul a (atr_stop_mult p))\<rfloor>
                        \<lfloor>fdivide (fmul v (max_pos_size p)) cl\<rfloor>)))
   \<and> calculate_risk_size default_params 100000 50 2 = Inr 500"
  using calculate_risk_size_guarded [of a cl p v] sizer_scenario by blast

theorem sizer_formula_witness:
  "0 < (50::real) \<and> 0 < (2::real) \<and> 0 < fmul 2 (atr_stop_mult default_params)
   \<and> fin64 (fmul 100000 (risk_pct default_params))
   \<and> fin64 (fdivide (fmul 100000 (risk_pct default_params))
               (fmul 2 (atr_stop_mult default_params)))
   \<and> fin64 (fdivide (fmul 100000 (max_pos_size default_params)) 50)
   \<and> calculate_risk_size default_params 100000 50 2 = Inr (max 0 (min 500 1600))"
  using sizer_formula [of 50 2 default_params 100000]
  by (simp add: default_params_def fin64_def float_eval)

text \<open>
  The formula on exact quotients fails. With equity 24543, price 19.15 and ATR 0.27 (as
  doubles, like the fractions 0.02 and 0.8) the exact quotient of risk money and
  per-share risk is just below 909 and its floor is 908, while the binary64 quotient is
  909.0 and the sizer returns 909. With equity 110000, price 50 and ATR 1.1 the decimal
  quotient \<open>2200 / 2.2\<close> is 1000, while the binary64 quotient is 999.9999999999999 and
  the sizer returns 999.
\<close>

theorem sizer_differs_from_exact_floor:
  "calculate_risk_size default_params 24543 (dbl 19.15) (dbl 0.27) = Inr 909
   \<and> max 0 (min \<lfloor>(24543 * risk_pct default_params)
                    / (dbl 0.27 * atr_stop_mult default_params)\<rfloor>
                 \<lfloor>(24543 * max_pos_size default_params) / dbl 19.15\<rfloor>) = 908
   \<and> calculate_risk_size default_params 110000 50 (dbl 1.1) = Inr 999
   \<and> max 0 (min \<lfloor>((110000::real) * 0.02) / (1.1 * 2.0)\<rfloor> \<lfloor>(110000 * 0.8) / 50\<rfloor>) = 1000"
  by (simp add: sizer_defs float_eval)

section \<open>Sizer on invalid input\<close>

lemma tiny_atr_value: "tiny_atr = 6325070415853457 / 2 ^ 1069"
  unfolding tiny_atr_def dbl_def
  by (rule trans [OF rnd64_eval [where e = "- 1017" and m = 6325070415853457]])
     (simp_all add: round_even_def power_int_minus)

lemma tiny_per_share: "fmul tiny_atr 2 = 6325070415853457 / 2 ^ 1068"
  unfolding fmul_def tiny_atr_value
  by (rule trans [OF rnd64_eval [where e = "- 1016" and m = 6325070415853457]])
     (simp_all add: round_even_def power_int_minus)





text \<open>The same overflow with a positive equity of 100000.\<close>

lemma tiny_quotient_positive:
  "fdivide 2000 (6325070415853457 / 2 ^ 1068) = 6263026125028040 * 2 ^ 974"
  unfolding fdivide_def
  by (rule trans [OF rnd64_eval [where e = 1026 and m = 6263026125028040]])
     (simp_all add: round_even_def power_int_minus)

lemma sizer_positive_equity_overflow:
  "calculate_risk_size default_params 100000 50 tiny_atr = Inl OverflowError"
proof -
  have pos: "0 < tiny_atr" "0 < fmul tiny_atr 2"
    by (simp_all add: tiny_per_share) (simp add: tiny_atr_value)
  have rm: "fmul 100000 (risk_pct default_params) = 2000"
    by (simp add: default_params_def float_eval)
  have nf: "\<not> fin64 (fdivide 2000 (6325070415853457 / 2 ^ 1068))"
    by (simp only: tiny_quotient_positive) (simp add: fin64_def)
  have "int_of_quotient 2000 (fmul tiny_atr 2) = Inl OverflowError"
    unfolding tiny_per_share
    by (rule int_of_quotient_overflow [OF _ _ _ nf]) (simp_all add: fin64_def)
  with pos rm show ?thesis
    by (simp add: calculate_risk_size_def Let_def default_params_def)
qed
section \<open>Evaluation of concrete steps\<close>

lemmas gateway_defs = buy_def sell_def sell_stop_def cancel_def try_cancel_def
  cancel_if_any_def try_sell_def accept_all_def

lemmas step_defs = strategy_next_def entry_def break_even_def trailing_def partial_exit_def
  sell_signal_def buy_signal_def int_of_product_def float_of_int_def py_int_def fin64_def
  Let_def

section \<open>Controller without a stop-order reference\<close>

lemma trailing_no_reference: "stop_order s = None \<Longrightarrow> trailing acc p b (s, gw) = (s, gw)"
  by (simp add: trailing_def Let_def)

lemma break_even_done: "break_even_active s \<Longrightarrow> break_even acc b (s, gw) = (s, gw)"
  by (simp add: break_even_def Let_def)

lemma partial_exit_no_signal:
  "\<not> sell_signal b \<Longrightarrow> partial_exit acc p b (s, gw) = Inr (s, gw)"
  by (simp add: partial_exit_def Let_def)

text \<open>
  C10. With an empty stop-order reference the trailing step is the identity on state and
  gateway. In a step of an open position that starts with an empty reference, nothing
  at all happens when the promotion is already done and there is no exit signal; so a
  reference that is set at the end of such a step comes from a promotion not yet done
  or from an exit signal.
\<close>

theorem empty_reference_frame:
  "(stop_order s = None \<longrightarrow> trailing acc p b (s, gw) = (s, gw))
   \<and> (stop_order s = None \<and> position_size b \<noteq> 0 \<and> break_even_active s \<and> \<not> sell_signal b
        \<longrightarrow> strategy_next acc p b (s, gw) = Inr (s, gw))
   \<and> (stop_order s = None \<and> position_size b \<noteq> 0
        \<and> strategy_next acc p b (s, gw) = Inr (s', gw') \<and> stop_order s' \<noteq> None
        \<longrightarrow> \<not> break_even_active s \<or> sell_signal b)"
proof -
  have 1: "stop_order s = None \<longrightarrow> trailing acc p b (s, gw) = (s, gw)"
    by (simp add: trailing_no_reference)
  have 2: "strategy_next acc p b (s, gw) = Inr (s, gw)"
    if "stop_order s = None" "position_size b \<noteq> 0" "break_even_active s" "\<not> sell_signal b"
    using that
    by (simp add: strategy_next_def break_even_done trailing_no_reference partial_exit_no_signal)
  have 3: "\<not> break_even_active s \<or> sell_signal b"
    if "stop_order s = None" "position_size b \<noteq> 0"
       "strategy_next acc p b (s, gw) = Inr (s', gw')" "stop_order s' \<noteq> None"
  proof (rule ccontr)
    assume "\<not> (\<not> break_even_active s \<or> sell_signal b)"
    then have "break_even_active s" "\<not> sell_signal b" by simp_all
    with that(1,2) have "strategy_next acc p b (s, gw) = Inr (s, gw)" by (rule 2)
    with that(3) have "s' = s" by simp
    with that(1,4) show False by simp
  qed
  from 1 2 3 show ?thesis by blast
qed

lemma unpromoted_step:
  "strategy_next accept_all default_params bar_quiet (unpromoted, gw0) =
     Inr (unpromoted\<lparr> stop_order := Some \<lparr> ref = 2, isbuy = False, exectype = Stop,
                                            ord_size = 333, price = Some 108 \<rparr>,
                      last_stop_price := 108, break_even_active := True \<rparr>,
          \<lparr> next_ref = 3, sent = [SellStop 333 (dbl 100.1), Cancel 1, SellStop 333 108] \<rparr>)"
  by (simp add: step_defs gateway_defs unpromoted_def init_def bar_quiet_def
      default_params_def gw0_def float_eval)

theorem empty_reference_frame_witness:
  "stop_order promoted = None \<and> position_size bar_quiet \<noteq> 0 \<and> break_even_active promoted
   \<and> \<not> sell_signal bar_quiet
   \<and> trailing accept_all default_params bar_quiet (promoted, gw0) = (promoted, gw0)
   \<and> strategy_next accept_all default_params bar_quiet (promoted, gw0) = Inr (promoted, gw0)
   \<and> stop_order unpromoted = None \<and> \<not> break_even_active unpromoted
   \<and> (\<exists>s' gw'. strategy_next accept_all default_params bar_quiet (unpromoted, gw0) = Inr (s', gw')
         \<and> stop_order s' \<noteq> None)"
  using empty_reference_frame [of promoted accept_all default_params bar_quiet gw0 promoted gw0]
    unpromoted_step
  by (simp add: promoted_def unpromoted_def init_def bar_quiet_def sell_signal_def)

section \<open>Trailing update\<close>

lemma trailing_cases:
  assumes "trailing acc p b (s, gw) = (s', gw')"
  shows "(s' = s \<and> gw' = gw)
       \<or> (fsub (close b) (fmul (atr b) (atr_stop_mult p))
             > fmul (last_stop_price s) (fadd 1 (trail_trigger p))
          \<and> fsub (close b) (fmul (atr b) (atr_stop_mult p)) > last_stop_price s
          \<and> 0 < position_size b \<and> stop_order s \<noteq> None
          \<and> (s' = s \<or> (\<exists>ord. s' = s\<lparr> stop_order := Some ord,
                                      last_stop_price :=
                                        fsub (close b) (fmul (atr b) (atr_stop_mult p)) \<rparr>)))"
  using assms unfolding trailing_def Let_def
  by (auto split: option.splits if_splits)

text \<open>
  C6 (as amended). A trailing step that sends anything or changes the state does so only
  when \<open>dynamic_stop\<close>, the rounded \<open>close - atr * stop_multiplier\<close>, exceeds both the
  rounded threshold \<open>last_stop_price * (1 + anti_churn_threshold)\<close> and \<open>last_stop_price\<close>;
  a replacement sets \<open>last_stop_price\<close> to \<open>dynamic_stop\<close>, so each trailing replacement
  raises the stop price strictly, above the rounded threshold, and a trailing step never
  lowers it.
\<close>

theorem trailing_no_churn:
  "trailing acc p b (s, gw) = (s', gw') \<longrightarrow>
     (s' \<noteq> s \<or> gw' \<noteq> gw \<longrightarrow>
        fsub (close b) (fmul (atr b) (atr_stop_mult p))
          > fmul (last_stop_price s) (fadd 1 (trail_trigger p))
        \<and> fsub (close b) (fmul (atr b) (atr_stop_mult p)) > last_stop_price s)
     \<and> (s' \<noteq> s \<longrightarrow>
        last_stop_price s' = fsub (close b) (fmul (atr b) (atr_stop_mult p))
        \<and> last_stop_price s' > fmul (last_stop_price s) (fadd 1 (trail_trigger p))
        \<and> last_stop_price s' > last_stop_price s)
     \<and> last_stop_price s \<le> last_stop_price s'"
proof
  assume a: "trailing acc p b (s, gw) = (s', gw')"
  let ?d = "fsub (close b) (fmul (atr b) (atr_stop_mult p))"
  let ?t = "fmul (last_stop_price s) (fadd 1 (trail_trigger p))"
  from trailing_cases [OF a]
  consider (same) "s' = s" "gw' = gw"
    | (tried) "?d > ?t" "?d > last_stop_price s" "s' = s"
    | (moved) "?d > ?t" "?d > last_stop_price s" "last_stop_price s' = ?d"
    by auto
  then show "(s' \<noteq> s \<or> gw' \<noteq> gw \<longrightarrow> ?d > ?t \<and> ?d > last_stop_price s)
     \<and> (s' \<noteq> s \<longrightarrow> last_stop_price s' = ?d \<and> last_stop_price s' > ?t
           \<and> last_stop_price s' > last_stop_price s)
     \<and> last_stop_price s \<le> last_stop_price s'"
  proof cases
    case same
    then show ?thesis by simp
  next
    case tried
    then show ?thesis by simp
  next
    case moved
    then show ?thesis by simp
  qed
qed

lemma trailing_example:
  "trailing accept_all default_params bar_103 (protected, gw1) =
     (protected\<lparr> stop_order := Some \<lparr> ref = 2, isbuy = False, exectype = Stop,
                                        ord_size = 100, price = Some 101 \<rparr>,
                 last_stop_price := 101 \<rparr>,
      \<lparr> next_ref = 3, sent = [Buy 100, SellStop 100 94, Cancel 1, SellStop 100 101] \<rparr>)"
  by (simp add: step_defs gateway_defs protected_def stop_at_94_def init_def bar_103_def
      default_params_def gw1_def float_eval)

theorem trailing_no_churn_witness:
  "(\<exists>s' gw'. trailing accept_all default_params bar_103 (protected, gw1) = (s', gw')
      \<and> s' \<noteq> protected \<and> last_stop_price s' = 101
      \<and> last_stop_price s' > fmul (last_stop_price protected)
                                (fadd 1 (trail_trigger default_params)))
   \<and> fmul 94 (fadd 1 (dbl 0.005)) < 101"
  using trailing_no_churn [of accept_all default_params bar_103 protected gw1
      "protected\<lparr> stop_order := Some \<lparr> ref = 2, isbuy = False, exectype = Stop,
                                        ord_size = 100, price = Some 101 \<rparr>,
                 last_stop_price := 101 \<rparr>"
      "\<lparr> next_ref = 3, sent = [Buy 100, SellStop 100 94, Cancel 1, SellStop 100 101] \<rparr>"]
    trailing_example
  by (simp add: protected_def init_def default_params_def stop_at_94_def float_eval)

text \<open>
  The increase can fall short of \<open>anti_churn_threshold * last_stop_price\<close>. With the stop
  at 188, a close of 198.34 and an ATR of 4.7, \<open>dynamic_stop\<close> is 188.94 and the rounded
  threshold \<open>188 * (1 + 0.005)\<close> is 188.93999999999997: the stop is replaced, and its
  price has risen by 0.9399999999999977, less than \<open>0.005 * 188 = 0.94\<close>, whether the
  difference and the product are taken exactly or rounded.
\<close>

theorem trailing_delta_below_threshold:
  "trailing accept_all default_params bar_198_34 (trailed_188, gw1) =
     (trailed_188\<lparr> stop_order := Some \<lparr> ref = 2, isbuy = False, exectype = Stop,
                                          ord_size = 100, price = Some (dbl 188.94) \<rparr>,
                   last_stop_price := dbl 188.94 \<rparr>,
      \<lparr> next_ref = 3,
        sent = [Buy 100, SellStop 100 94, Cancel 1, SellStop 100 (dbl 188.94)] \<rparr>)
   \<and> dbl 188.94 - last_stop_price trailed_188
        < trail_trigger default_params * last_stop_price trailed_188
   \<and> dbl 188.94 - last_stop_price trailed_188 < 0.005 * last_stop_price trailed_188
   \<and> fsub (dbl 188.94) (last_stop_price trailed_188)
        < fmul (trail_trigger default_params) (last_stop_price trailed_188)"
  by (simp add: step_defs gateway_defs trailed_188_def stop_at_188_def init_def
      bar_198_34_def bar_103_def default_params_def gw1_def float_eval)
section \<open>Ledger\<close>





section \<open>Partial exit\<close>

lemma accept_all_sell [simp]:
  "sell accept_all gw n =
     Some (\<lparr> ref = next_ref gw, isbuy = False, exectype = Market, ord_size = n, price = None \<rparr>,
           gw\<lparr> next_ref := next_ref gw + 1, sent := sent gw @ [Sell n] \<rparr>)"
  by (simp add: sell_def accept_all_def)

lemma accept_all_sell_stop [simp]:
  "sell_stop accept_all gw n pr =
     Some (\<lparr> ref = next_ref gw, isbuy = False, exectype = Stop, ord_size = n, price = Some pr \<rparr>,
           gw\<lparr> next_ref := next_ref gw + 1, sent := sent gw @ [SellStop n pr] \<rparr>)"
  by (simp add: sell_stop_def accept_all_def)

text \<open>The requests a \<^verbatim>\<open>cancel\<close> of the held stop adds when the gateway accepts it.\<close>

lemma accept_all_cancel_if_any:
  "cancel_if_any accept_all gw so =
     gw\<lparr> sent := sent gw @ (case so of None \<Rightarrow> [] | Some old \<Rightarrow> [Cancel (ref old)]) \<rparr>"
  by (cases so) (simp_all add: cancel_if_any_def try_cancel_def cancel_def accept_all_def)

lemma int_of_product_finite:
  assumes "fin64 (float_of_int n)" "fin64 (fmul (float_of_int n) x)"
  shows "int_of_product n x = Inr (py_int (fmul (float_of_int n) x))"
  using assms by (simp add: int_of_product_def Let_def)

text \<open>
  For a long position whose size converts to a finite float and a double fraction in
  \<open>[0, 1)\<close> the retained size is below the position size, so something is sold.
\<close>

lemma retain_below_size:
  assumes S: "0 < S" "fin64 (float_of_int S)" and r: "is_double r" "0 \<le> r" "r < 1"
  shows "int_of_product S r = Inr (py_int (fmul (float_of_int S) r))"
    and "0 \<le> py_int (fmul (float_of_int S) r)"
    and "py_int (fmul (float_of_int S) r) < S"
proof -
  let ?y = "fmul (float_of_int S) r"
  from r have r1: "r \<le> 1 - 2 powi (- 53)" by (rule double_below_one)
  note b = rnd64_fraction_of_int [OF S(1) r(2) r1]
  have lt: "?y < of_int S" unfolding fmul_def float_of_int_def by (rule b(1))
  have ltT: "?y < float_of_int S" unfolding fmul_def float_of_int_def by (rule b(2))
  have Tpos: "0 < float_of_int S" unfolding float_of_int_def by (rule b(3))
  then have "0 \<le> float_of_int S * r" using r(2) by simp
  then have nn: "0 \<le> ?y" unfolding fmul_def by (rule rnd64_nonneg)
  have "\<bar>?y\<bar> < \<bar>float_of_int S\<bar>" using nn ltT by simp
  also have "\<dots> < 2 ^ 1024" using S(2) by (simp add: fin64_def)
  finally have fin: "fin64 ?y" by (simp add: fin64_def)
  show "int_of_product S r = Inr (py_int ?y)"
    using S(2) fin by (rule int_of_product_finite)
  show "0 \<le> py_int ?y" using nn by (simp add: py_int_nonneg)
  from lt have "\<lfloor>?y\<rfloor> < S" by (simp add: floor_less_iff)
  with nn show "py_int ?y < S" by (simp add: py_int_nonneg)
qed

lemma partial_exit_accepted:
  assumes "sell_signal b"
    and "int_of_product (position_size b) (retain_pct p) = Inr retain"
    and "0 < position_size b - retain"
  shows "partial_exit accept_all p b (s, gw) =
     Inr (let sell_now = position_size b - retain;
              new_stop_price = max (last_stop_price s) (fsub (low b) (atr b));
              cancels = (case stop_order s of None \<Rightarrow> [] | Some old \<Rightarrow> [Cancel (ref old)])
          in if 0 < retain
             then (s\<lparr> stop_order := Some \<lparr> ref = next_ref gw + 1, isbuy = False,
                                            exectype = Stop, ord_size = retain,
                                            price = Some new_stop_price \<rparr>,
                       last_stop_price := new_stop_price \<rparr>,
                   gw\<lparr> next_ref := next_ref gw + 2,
                       sent := sent gw @ [Sell sell_now] @ cancels
                                 @ [SellStop retain new_stop_price] \<rparr>)
             else (s, gw\<lparr> next_ref := next_ref gw + 1,
                          sent := sent gw @ [Sell sell_now] @ cancels \<rparr>))"
  using assms
  by (simp add: partial_exit_def try_sell_def accept_all_cancel_if_any Let_def)

lemma partial_exit_nothing_sold:
  assumes "int_of_product (position_size b) (retain_pct p) = Inr retain"
    and "position_size b - retain \<le> 0"
  shows "partial_exit acc p b (s, gw) = Inr (s, gw)"
  using assms by (simp add: partial_exit_def Let_def)

text \<open>
  C5 (as amended). On an exit signal with position size \<open>S\<close>, \<open>retain\<close> is \<open>int()\<close> of the
  binary64 product \<open>S * retain_pct\<close> (its floor, for a position and a fraction that are
  not negative) and \<open>sell_now = S - retain\<close>. When \<open>sell_now > 0\<close> and
  the gateway accepts, the step sends the market sell of \<open>sell_now\<close>, then the cancel of
  the held stop if there is one, then, when \<open>retain > 0\<close>, a stop of exactly \<open>retain\<close>
  units at \<open>max last_stop_price (low - atr)\<close>, which becomes the held stop. When
  \<open>sell_now \<le> 0\<close> nothing is sent and nothing changes. For a long position whose size
  converts to a finite float and a fraction in \<open>[0, 1)\<close>, \<open>sell_now > 0\<close>.
\<close>

theorem partial_exit_requests:
  "sell_signal b \<longrightarrow>
     (int_of_product (position_size b) (retain_pct p) = Inr retain \<longrightarrow>
        (0 < position_size b - retain \<longrightarrow>
           partial_exit accept_all p b (s, gw) =
             Inr (let sell_now = position_size b - retain;
                      new_stop_price = max (last_stop_price s) (fsub (low b) (atr b));
                      cancels = (case stop_order s of None \<Rightarrow> []
                                 | Some old \<Rightarrow> [Cancel (ref old)])
                  in if 0 < retain
                     then (s\<lparr> stop_order := Some \<lparr> ref = next_ref gw + 1, isbuy = False,
                                                    exectype = Stop, ord_size = retain,
                                                    price = Some new_stop_price \<rparr>,
                               last_stop_price := new_stop_price \<rparr>,
                           gw\<lparr> next_ref := next_ref gw + 2,
                               sent := sent gw @ [Sell sell_now] @ cancels
                                         @ [SellStop retain new_stop_price] \<rparr>)
                     else (s, gw\<lparr> next_ref := next_ref gw + 1,
                                  sent := sent gw @ [Sell sell_now] @ cancels \<rparr>)))
        \<and> (position_size b - retain \<le> 0 \<longrightarrow> partial_exit acc p b (s, gw) = Inr (s, gw)))
     \<and> (0 \<le> position_size b \<and> 0 \<le> retain_pct p
          \<and> fin64 (float_of_int (position_size b))
          \<and> fin64 (fmul (float_of_int (position_size b)) (retain_pct p)) \<longrightarrow>
          int_of_product (position_size b) (retain_pct p)
            = Inr \<lfloor>fmul (float_of_int (position_size b)) (retain_pct p)\<rfloor>)
     \<and> (0 < position_size b \<and> fin64 (float_of_int (position_size b))
          \<and> is_double (retain_pct p) \<and> 0 \<le> retain_pct p \<and> retain_pct p < 1 \<longrightarrow>
          int_of_product (position_size b) (retain_pct p)
            = Inr (py_int (fmul (float_of_int (position_size b)) (retain_pct p)))
          \<and> 0 < position_size b
                 - py_int (fmul (float_of_int (position_size b)) (retain_pct p)))"
proof
  assume sig: "sell_signal b"
  let ?S = "position_size b"
  let ?y = "fmul (float_of_int ?S) (retain_pct p)"
  have 1: "int_of_product ?S (retain_pct p) = Inr retain \<longrightarrow>
        (0 < ?S - retain \<longrightarrow>
           partial_exit accept_all p b (s, gw) =
             Inr (let sell_now = ?S - retain;
                      new_stop_price = max (last_stop_price s) (fsub (low b) (atr b));
                      cancels = (case stop_order s of None \<Rightarrow> []
                                 | Some old \<Rightarrow> [Cancel (ref old)])
                  in if 0 < retain
                     then (s\<lparr> stop_order := Some \<lparr> ref = next_ref gw + 1, isbuy = False,
                                                    exectype = Stop, ord_size = retain,
                                                    price = Some new_stop_price \<rparr>,
                               last_stop_price := new_stop_price \<rparr>,
                           gw\<lparr> next_ref := next_ref gw + 2,
                               sent := sent gw @ [Sell sell_now] @ cancels
                                         @ [SellStop retain new_stop_price] \<rparr>)
                     else (s, gw\<lparr> next_ref := next_ref gw + 1,
                                  sent := sent gw @ [Sell sell_now] @ cancels \<rparr>)))
        \<and> (?S - retain \<le> 0 \<longrightarrow> partial_exit acc p b (s, gw) = Inr (s, gw))"
    using partial_exit_accepted [OF sig, of p retain s gw]
      partial_exit_nothing_sold [of b p retain acc s gw]
    by blast
  have 2: "0 \<le> ?S \<and> 0 \<le> retain_pct p \<and> fin64 (float_of_int ?S) \<and> fin64 ?y \<longrightarrow>
          int_of_product ?S (retain_pct p) = Inr \<lfloor>?y\<rfloor>"
  proof
    assume a: "0 \<le> ?S \<and> 0 \<le> retain_pct p \<and> fin64 (float_of_int ?S) \<and> fin64 ?y"
    then have "0 \<le> real_of_int ?S" by simp
    then have "0 \<le> float_of_int ?S" unfolding float_of_int_def by (rule rnd64_nonneg)
    with a have "0 \<le> float_of_int ?S * retain_pct p" by simp
    then have "0 \<le> ?y" unfolding fmul_def by (rule rnd64_nonneg)
    then have "py_int ?y = \<lfloor>?y\<rfloor>" by (rule py_int_nonneg)
    with int_of_product_finite [of ?S "retain_pct p"] a
    show "int_of_product ?S (retain_pct p) = Inr \<lfloor>?y\<rfloor>" by simp
  qed
  have 3: "0 < ?S \<and> fin64 (float_of_int ?S) \<and> is_double (retain_pct p)
          \<and> 0 \<le> retain_pct p \<and> retain_pct p < 1 \<longrightarrow>
          int_of_product ?S (retain_pct p) = Inr (py_int ?y) \<and> 0 < ?S - py_int ?y"
    using retain_below_size [of ?S "retain_pct p"] by simp
  from 1 2 3 show "(int_of_product ?S (retain_pct p) = Inr retain \<longrightarrow>
        (0 < ?S - retain \<longrightarrow>
           partial_exit accept_all p b (s, gw) =
             Inr (let sell_now = ?S - retain;
                      new_stop_price = max (last_stop_price s) (fsub (low b) (atr b));
                      cancels = (case stop_order s of None \<Rightarrow> []
                                 | Some old \<Rightarrow> [Cancel (ref old)])
                  in if 0 < retain
                     then (s\<lparr> stop_order := Some \<lparr> ref = next_ref gw + 1, isbuy = False,
                                                    exectype = Stop, ord_size = retain,
                                                    price = Some new_stop_price \<rparr>,
                               last_stop_price := new_stop_price \<rparr>,
                           gw\<lparr> next_ref := next_ref gw + 2,
                               sent := sent gw @ [Sell sell_now] @ cancels
                                         @ [SellStop retain new_stop_price] \<rparr>)
                     else (s, gw\<lparr> next_ref := next_ref gw + 1,
                                  sent := sent gw @ [Sell sell_now] @ cancels \<rparr>)))
        \<and> (?S - retain \<le> 0 \<longrightarrow> partial_exit acc p b (s, gw) = Inr (s, gw)))
     \<and> (0 \<le> ?S \<and> 0 \<le> retain_pct p \<and> fin64 (float_of_int ?S) \<and> fin64 ?y \<longrightarrow>
          int_of_product ?S (retain_pct p) = Inr \<lfloor>?y\<rfloor>)
     \<and> (0 < ?S \<and> fin64 (float_of_int ?S) \<and> is_double (retain_pct p)
          \<and> 0 \<le> retain_pct p \<and> retain_pct p < 1 \<longrightarrow>
          int_of_product ?S (retain_pct p) = Inr (py_int ?y) \<and> 0 < ?S - py_int ?y)"
    by blast
qed

lemmas product_defs = int_of_product_def float_of_int_def py_int_def fin64_def Let_def

lemma rnd64_1000: "rnd64 1000 = 1000"
  using rnd64_of_int [of 1000] by simp

lemma rnd64_180: "rnd64 180 = 180"
  using rnd64_of_int [of 180] by simp

lemma retain_1000: "int_of_product 1000 (retain_pct default_params) = Inr 150"
  by (simp add: product_defs default_params_def rnd64_1000 float_eval)

lemma is_double_retain_pct: "is_double (retain_pct default_params)"
proof -
  have "rnd64 (5404319552844595 / 36028797018963968) = 5404319552844595 / 36028797018963968"
    by (rule trans [OF rnd64_eval [where e = "- 3" and m = 5404319552844595]])
       (simp_all add: round_even_def power_int_minus)
  then show ?thesis
    by (simp add: is_double_def fin64_def default_params_def float_eval)
qed

text \<open>Scenario 3: 1000 units, retained fraction 0.15.\<close>

theorem partial_exit_requests_witness:
  "sell_signal bar_dead_cross
   \<and> int_of_product (position_size bar_dead_cross) (retain_pct default_params) = Inr 150
   \<and> is_double (retain_pct default_params)
   \<and> fin64 (float_of_int (position_size bar_dead_cross))
   \<and> 0 < position_size bar_dead_cross
           - py_int (fmul (float_of_int (position_size bar_dead_cross))
                       (retain_pct default_params))
   \<and> partial_exit accept_all default_params bar_dead_cross (long_1000, gw2) =
       Inr (long_1000\<lparr> stop_order := Some \<lparr> ref = 3, isbuy = False, exectype = Stop,
                                            ord_size = 150, price = Some 96 \<rparr>,
                       last_stop_price := 96 \<rparr>,
            \<lparr> next_ref = 4,
              sent = [Buy 1000, SellStop 1000 94, Sell 850, Cancel 1, SellStop 150 96] \<rparr>)"
proof -
  have frac: "0 \<le> retain_pct default_params" "retain_pct default_params < 1"
    by (simp_all add: default_params_def float_eval)
  have S: "position_size bar_dead_cross = 1000" "sell_signal bar_dead_cross"
    by (simp_all add: bar_dead_cross_def sell_signal_def)
  have fin: "fin64 (float_of_int (position_size bar_dead_cross))"
    by (simp add: S float_of_int_def rnd64_1000 fin64_def)
  from partial_exit_requests [of bar_dead_cross default_params 150 long_1000 gw2 accept_all]
    retain_1000 is_double_retain_pct frac S fin
  have "partial_exit accept_all default_params bar_dead_cross (long_1000, gw2) =
       Inr (long_1000\<lparr> stop_order := Some \<lparr> ref = 3, isbuy = False, exectype = Stop,
                                            ord_size = 150, price = Some 96 \<rparr>,
                       last_stop_price := 96 \<rparr>,
            \<lparr> next_ref = 4,
              sent = [Buy 1000, SellStop 1000 94, Sell 850, Cancel 1, SellStop 150 96] \<rparr>)"
    and "0 < position_size bar_dead_cross
           - py_int (fmul (float_of_int (position_size bar_dead_cross))
                       (retain_pct default_params))"
    by (simp_all add: bar_dead_cross_def long_1000_def stop_1000_def init_def gw2_def
        Let_def float_eval)
  with retain_1000 is_double_retain_pct S fin show ?thesis by simp
qed

text \<open>
  The claim as stated fails when nothing is sold: with the retained fraction 1 the
  position of 1000 units retains 1000, \<open>sell_now\<close> is 0, and the step neither cancels the
  held stop nor submits the stop at \<open>max last_stop_price (low - atr) = 96\<close>. The retained size
  is not the floor of the exact product either: with the double 0.15 the exact product
  \<open>1000 * 0.15\<close> is just below 150 and its floor is 149 where the code retains 150, and
  for 180 units and the fraction 0.35 the code retains 62 where \<open>\<lfloor>180 * 0.35\<rfloor>\<close> on the
  decimal fraction is 63.
\<close>

theorem nothing_sold_keeps_stop:
  "sell_signal bar_dead_cross
   \<and> stop_order long_1000 = Some stop_1000
   \<and> int_of_product (position_size bar_dead_cross) (retain_pct retain_all) = Inr 1000
   \<and> partial_exit accept_all retain_all bar_dead_cross (long_1000, gw2) = Inr (long_1000, gw2)
   \<and> int_of_product 1000 (retain_pct default_params) = Inr 150
   \<and> \<lfloor>1000 * retain_pct default_params\<rfloor> = 149
   \<and> int_of_product 180 (retain_pct retain_35) = Inr 62
   \<and> \<lfloor>(180::real) * 0.35\<rfloor> = 63"
  by (simp add: partial_exit_def product_defs retain_all_def retain_35_def default_params_def
      bar_dead_cross_def long_1000_def stop_1000_def init_def gw2_def sell_signal_def
      rnd64_1000 rnd64_180 float_eval)
section \<open>Break-even promotion\<close>

lemma break_even_fires:
  assumes "\<not> break_even_active s" "entry_price s \<noteq> 0" "initial_stop s \<noteq> 0"
    and "0 < fsub (entry_price s) (initial_stop s)"
    and "fsub (close b) (entry_price s) > fmul (fsub (entry_price s) (initial_stop s)) (dbl 0.6)"
    and "stop_order s = None \<or> fmul (entry_price s) (dbl 1.001) > last_stop_price s"
  shows "break_even accept_all b (s, gw) =
     (s\<lparr> stop_order := Some \<lparr> ref = next_ref gw, isbuy = False, exectype = Stop,
                              ord_size = position_size b,
                              price = Some (fmul (entry_price s) (dbl 1.001)) \<rparr>,
         last_stop_price := fmul (entry_price s) (dbl 1.001), break_even_active := True \<rparr>,
      gw\<lparr> next_ref := next_ref gw + 1,
          sent := sent gw @ (case stop_order s of None \<Rightarrow> [] | Some old \<Rightarrow> [Cancel (ref old)])
                    @ [SellStop (position_size b) (fmul (entry_price s) (dbl 1.001))] \<rparr>)"
  using assms
  by (simp add: break_even_def accept_all_cancel_if_any Let_def)

lemma break_even_skips:
  assumes "break_even_active s \<or> entry_price s = 0 \<or> initial_stop s = 0
           \<or> fsub (entry_price s) (initial_stop s) \<le> 0
           \<or> fsub (close b) (entry_price s)
                \<le> fmul (fsub (entry_price s) (initial_stop s)) (dbl 0.6)
           \<or> (stop_order s \<noteq> None \<and> fmul (entry_price s) (dbl 1.001) \<le> last_stop_price s)"
  shows "break_even acc b (s, gw) = (s, gw)"
  using assms
  by (auto simp: break_even_def Let_def)

lemma risk_100_94: "fsub 100 94 = 6"
  by (simp add: float_eval)

lemma new_stop_100: "fmul 100 (dbl 1.001) = dbl 100.1"
  by (simp add: float_eval)

text \<open>
  C4 (as amended). While the promotion has not occurred and \<open>entry_price\<close> and
  \<open>initial_stop\<close> are set (not 0), with \<open>initial_risk\<close> the rounded
  \<open>entry_price - initial_stop\<close>: when \<open>initial_risk > 0\<close>, the rounded gain
  \<open>close - entry_price\<close> strictly exceeds the rounded \<open>initial_risk * 0.6\<close>, and either no
  stop order is held or the rounded \<open>entry_price * 1.001\<close> is strictly above
  \<open>last_stop_price\<close>, an accepting gateway gets the cancel of the held stop and a stop for
  the position size at the rounded \<open>entry_price * 1.001\<close>, and the promotion is marked
  done; in every other case nothing is sent and nothing changes. With entry 100 and
  initial stop 94 the threshold is the rounded \<open>6 * 0.6\<close>, 3.5999999999999996: the
  promotion fires when the rounded \<open>close - 100\<close> is strictly above it, sets the stop to
  the double 100.1, and is skipped when a held stop is already at or above that.
\<close>

theorem break_even_promotion:
  "(break_even_active s \<or> entry_price s = 0 \<or> initial_stop s = 0
      \<or> fsub (entry_price s) (initial_stop s) \<le> 0
      \<or> fsub (close b) (entry_price s)
           \<le> fmul (fsub (entry_price s) (initial_stop s)) (dbl 0.6)
      \<or> (stop_order s \<noteq> None \<and> fmul (entry_price s) (dbl 1.001) \<le> last_stop_price s)
      \<longrightarrow> break_even acc b (s, gw) = (s, gw))
   \<and> (\<not> break_even_active s \<and> entry_price s \<noteq> 0 \<and> initial_stop s \<noteq> 0
      \<and> 0 < fsub (entry_price s) (initial_stop s)
      \<and> fsub (close b) (entry_price s)
           > fmul (fsub (entry_price s) (initial_stop s)) (dbl 0.6)
      \<and> (stop_order s = None \<or> fmul (entry_price s) (dbl 1.001) > last_stop_price s)
      \<longrightarrow> break_even accept_all b (s, gw) =
            (s\<lparr> stop_order := Some \<lparr> ref = next_ref gw, isbuy = False, exectype = Stop,
                                     ord_size = position_size b,
                                     price = Some (fmul (entry_price s) (dbl 1.001)) \<rparr>,
                last_stop_price := fmul (entry_price s) (dbl 1.001),
                break_even_active := True \<rparr>,
             gw\<lparr> next_ref := next_ref gw + 1,
                 sent := sent gw
                   @ (case stop_order s of None \<Rightarrow> [] | Some old \<Rightarrow> [Cancel (ref old)])
                   @ [SellStop (position_size b) (fmul (entry_price s) (dbl 1.001))] \<rparr>))
   \<and> (\<not> break_even_active s \<and> entry_price s = 100 \<and> initial_stop s = 94 \<longrightarrow>
        (fsub (close b) 100 \<le> fmul 6 (dbl 0.6) \<longrightarrow> break_even acc b (s, gw) = (s, gw))
        \<and> (stop_order s \<noteq> None \<and> dbl 100.1 \<le> last_stop_price s
             \<longrightarrow> break_even acc b (s, gw) = (s, gw))
        \<and> (fmul 6 (dbl 0.6) < fsub (close b) 100
             \<and> (stop_order s = None \<or> last_stop_price s < dbl 100.1)
             \<longrightarrow> last_stop_price (fst (break_even accept_all b (s, gw))) = dbl 100.1
                 \<and> break_even_active (fst (break_even accept_all b (s, gw)))))"
proof -
  have skip: "break_even_active s \<or> entry_price s = 0 \<or> initial_stop s = 0
      \<or> fsub (entry_price s) (initial_stop s) \<le> 0
      \<or> fsub (close b) (entry_price s)
           \<le> fmul (fsub (entry_price s) (initial_stop s)) (dbl 0.6)
      \<or> (stop_order s \<noteq> None \<and> fmul (entry_price s) (dbl 1.001) \<le> last_stop_price s)
      \<longrightarrow> break_even acc b (s, gw) = (s, gw)"
    using break_even_skips [of s b acc gw] by blast
  have fire: "\<not> break_even_active s \<and> entry_price s \<noteq> 0 \<and> initial_stop s \<noteq> 0
      \<and> 0 < fsub (entry_price s) (initial_stop s)
      \<and> fsub (close b) (entry_price s)
           > fmul (fsub (entry_price s) (initial_stop s)) (dbl 0.6)
      \<and> (stop_order s = None \<or> fmul (entry_price s) (dbl 1.001) > last_stop_price s)
      \<longrightarrow> break_even accept_all b (s, gw) =
            (s\<lparr> stop_order := Some \<lparr> ref = next_ref gw, isbuy = False, exectype = Stop,
                                     ord_size = position_size b,
                                     price = Some (fmul (entry_price s) (dbl 1.001)) \<rparr>,
                last_stop_price := fmul (entry_price s) (dbl 1.001),
                break_even_active := True \<rparr>,
             gw\<lparr> next_ref := next_ref gw + 1,
                 sent := sent gw
                   @ (case stop_order s of None \<Rightarrow> [] | Some old \<Rightarrow> [Cancel (ref old)])
                   @ [SellStop (position_size b) (fmul (entry_price s) (dbl 1.001))] \<rparr>)"
    using break_even_fires [of s b gw] by blast
  have scen: "\<not> break_even_active s \<and> entry_price s = 100 \<and> initial_stop s = 94 \<longrightarrow>
        (fsub (close b) 100 \<le> fmul 6 (dbl 0.6) \<longrightarrow> break_even acc b (s, gw) = (s, gw))
        \<and> (stop_order s \<noteq> None \<and> dbl 100.1 \<le> last_stop_price s
             \<longrightarrow> break_even acc b (s, gw) = (s, gw))
        \<and> (fmul 6 (dbl 0.6) < fsub (close b) 100
             \<and> (stop_order s = None \<or> last_stop_price s < dbl 100.1)
             \<longrightarrow> last_stop_price (fst (break_even accept_all b (s, gw))) = dbl 100.1
                 \<and> break_even_active (fst (break_even accept_all b (s, gw))))"
  proof (intro impI conjI)
    assume a: "\<not> break_even_active s \<and> entry_price s = 100 \<and> initial_stop s = 94"
    then have e: "entry_price s = 100" and i: "initial_stop s = 94" by simp_all
    {
      assume "fsub (close b) 100 \<le> fmul 6 (dbl 0.6)"
      then have "fsub (close b) (entry_price s)
                   \<le> fmul (fsub (entry_price s) (initial_stop s)) (dbl 0.6)"
        by (simp only: e i risk_100_94)
      then show "break_even acc b (s, gw) = (s, gw)" by (simp add: break_even_skips)
    }
    {
      assume "stop_order s \<noteq> None \<and> dbl 100.1 \<le> last_stop_price s"
      then have "stop_order s \<noteq> None \<and> fmul (entry_price s) (dbl 1.001) \<le> last_stop_price s"
        by (simp only: e new_stop_100 simp_thms)
      then show "break_even acc b (s, gw) = (s, gw)" by (simp add: break_even_skips)
    }
    {
      assume c: "fmul 6 (dbl 0.6) < fsub (close b) 100
                 \<and> (stop_order s = None \<or> last_stop_price s < dbl 100.1)"
      then have g: "fsub (close b) (entry_price s)
                      > fmul (fsub (entry_price s) (initial_stop s)) (dbl 0.6)"
        by (simp only: e i risk_100_94)
      from c have r: "stop_order s = None
                      \<or> fmul (entry_price s) (dbl 1.001) > last_stop_price s"
        by (simp only: e new_stop_100)
      have p: "0 < fsub (entry_price s) (initial_stop s)"
        by (simp add: e i risk_100_94)
      from a have "entry_price s \<noteq> 0" "initial_stop s \<noteq> 0" "\<not> break_even_active s"
        by simp_all
      from break_even_fires [OF this(3,1,2) p g r, of gw]
      have "last_stop_price (fst (break_even accept_all b (s, gw)))
              = fmul (entry_price s) (dbl 1.001)"
        and act: "break_even_active (fst (break_even accept_all b (s, gw)))" by simp_all
      then show "last_stop_price (fst (break_even accept_all b (s, gw))) = dbl 100.1"
        by (simp only: e new_stop_100)
      from act show "break_even_active (fst (break_even accept_all b (s, gw)))" .
    }
  qed
  from skip fire scen show ?thesis by blast
qed

theorem break_even_promotion_witness:
  "\<not> break_even_active protected \<and> entry_price protected = 100 \<and> initial_stop protected = 94
   \<and> fmul 6 (dbl 0.6) < fsub (close bar_104) 100 \<and> last_stop_price protected < dbl 100.1
   \<and> break_even accept_all bar_104 (protected, gw1) =
       (protected\<lparr> stop_order := Some \<lparr> ref = 2, isbuy = False, exectype = Stop,
                                        ord_size = 100, price = Some (dbl 100.1) \<rparr>,
                   last_stop_price := dbl 100.1, break_even_active := True \<rparr>,
        \<lparr> next_ref = 3,
          sent = [Buy 100, SellStop 100 94, Cancel 1, SellStop 100 (dbl 100.1)] \<rparr>)"
  using break_even_promotion [of protected bar_104 accept_all gw1]
  by (simp add: protected_def stop_at_94_def init_def bar_104_def bar_103_6_def gw1_def
      float_eval)

text \<open>
  The claim as stated fails on the boundary: at a close of 103.6, the double the step
  receives for that price, the rounded gain is 3.5999999999999943, not above the
  threshold, and the step sends nothing. The test on exact values fails too: with entry
  8.74, initial stop 0.29 and a close of 13.81 the exact gain exceeds 0.6 times the exact
  initial risk, but both round to 5.07 and the step sends nothing.
\<close>

theorem no_promotion_at_103_6:
  "entry_price protected = 100 \<and> initial_stop protected = 94 \<and> \<not> break_even_active protected
   \<and> close bar_103_6 = dbl 103.6
   \<and> break_even accept_all bar_103_6 (protected, gw1) = (protected, gw1)
   \<and> \<not> break_even_active entered_8_74
   \<and> 0 < entry_price entered_8_74 - initial_stop entered_8_74
   \<and> close bar_13_81 - entry_price entered_8_74
        > 0.6 * (entry_price entered_8_74 - initial_stop entered_8_74)
   \<and> fmul (entry_price entered_8_74) (dbl 1.001) > last_stop_price entered_8_74
   \<and> break_even accept_all bar_13_81 (entered_8_74, gw1) = (entered_8_74, gw1)"
  by (simp add: break_even_def protected_def entered_8_74_def stop_at_0_29_def init_def
      bar_103_6_def bar_13_81_def bar_103_def Let_def float_eval)
section \<open>Entry\<close>

lemma entry_accepted:
  assumes "buy_signal p b"
    and "calculate_risk_size p (account_value b) (close b) (atr b) = Inr n" and "0 < n"
    and "acc (Buy n)" and "acc (SellStop n (fsub (close b) (fmul (atr b) (atr_stop_mult p))))"
  shows "entry acc p b (s, gw) =
     Inr (s\<lparr> stop_order := Some \<lparr> ref = next_ref gw + 1, isbuy = False, exectype = Stop,
                                  ord_size = n,
                                  price = Some (fsub (close b) (fmul (atr b) (atr_stop_mult p))) \<rparr>,
             last_stop_price := fsub (close b) (fmul (atr b) (atr_stop_mult p)),
             initial_stop := fsub (close b) (fmul (atr b) (atr_stop_mult p)),
             break_even_active := False \<rparr>,
          gw\<lparr> next_ref := next_ref gw + 2,
              sent := sent gw @ [Buy n, SellStop n (fsub (close b) (fmul (atr b) (atr_stop_mult p)))] \<rparr>)"
  using assms by (simp add: entry_def buy_def sell_stop_def Let_def)

lemma entry_stop_refused:
  assumes "buy_signal p b"
    and "calculate_risk_size p (account_value b) (close b) (atr b) = Inr n" and "0 < n"
    and "acc (Buy n)" and "\<not> acc (SellStop n (fsub (close b) (fmul (atr b) (atr_stop_mult p))))"
  shows "entry acc p b (s, gw) =
     Inr (s, gw\<lparr> next_ref := next_ref gw + 1, sent := sent gw @ [Buy n] \<rparr>)"
  using assms by (simp add: entry_def buy_def sell_stop_def Let_def)

lemma notify_buy_fill:
  assumes "n_status nt = Completed" "isbuy (n_order nt)"
  shows "entry_price (notify_order s pos nt) = executed_price nt"
    and "initial_stop (notify_order s pos nt) = initial_stop s"
    and "last_stop_price (notify_order s pos nt) = last_stop_price s"
  using assms by (simp_all add: notify_order_def Let_def split: option.split)

text \<open>
  C3 (as amended). On an entry signal while flat, with a planned size \<open>n > 0\<close> and the buy
  accepted, the same step submits the market buy and a protective stop sell of \<open>n\<close> units
  at the rounded \<open>close - atr * stop_multiplier\<close> of the signal bar, records that price as
  \<open>initial_stop\<close> and \<open>last_stop_price\<close> and clears the promotion flag; when the stop
  submission raises, the step still returns, with the buy sent and the controller state
  unchanged. The later buy fill records \<open>entry_price\<close> from the fill and leaves
  \<open>initial_stop\<close> and \<open>last_stop_price\<close> as they are.
\<close>

theorem entry_transition:
  "(max (trend_period p) (slow_period p) + 2 \<le> data_len b \<and> position_size b = 0
      \<and> buy_signal p b
      \<and> calculate_risk_size p (account_value b) (close b) (atr b) = Inr n \<and> 0 < n
      \<and> acc (Buy n) \<longrightarrow>
        (acc (SellStop n (fsub (close b) (fmul (atr b) (atr_stop_mult p)))) \<longrightarrow>
           strategy_next acc p b (s, gw) =
             Inr (s\<lparr> stop_order := Some \<lparr> ref = next_ref gw + 1, isbuy = False,
                                          exectype = Stop, ord_size = n,
                                          price = Some (fsub (close b) (fmul (atr b) (atr_stop_mult p))) \<rparr>,
                     last_stop_price := fsub (close b) (fmul (atr b) (atr_stop_mult p)),
                     initial_stop := fsub (close b) (fmul (atr b) (atr_stop_mult p)),
                     break_even_active := False \<rparr>,
                  gw\<lparr> next_ref := next_ref gw + 2,
                      sent := sent gw
                        @ [Buy n, SellStop n (fsub (close b) (fmul (atr b) (atr_stop_mult p)))] \<rparr>))
        \<and> (\<not> acc (SellStop n (fsub (close b) (fmul (atr b) (atr_stop_mult p)))) \<longrightarrow>
           strategy_next acc p b (s, gw) =
             Inr (s, gw\<lparr> next_ref := next_ref gw + 1, sent := sent gw @ [Buy n] \<rparr>)))
   \<and> (n_status nt = Completed \<and> isbuy (n_order nt) \<longrightarrow>
        entry_price (notify_order s pos nt) = executed_price nt
        \<and> initial_stop (notify_order s pos nt) = initial_stop s
        \<and> last_stop_price (notify_order s pos nt) = last_stop_price s)"
proof -
  let ?stop = "fsub (close b) (fmul (atr b) (atr_stop_mult p))"
  have step: "strategy_next acc p b (s, gw) = entry acc p b (s, gw)"
    if "max (trend_period p) (slow_period p) + 2 \<le> data_len b" "position_size b = 0"
    using that by (simp add: strategy_next_def)
  have 1: "max (trend_period p) (slow_period p) + 2 \<le> data_len b \<and> position_size b = 0
      \<and> buy_signal p b
      \<and> calculate_risk_size p (account_value b) (close b) (atr b) = Inr n \<and> 0 < n
      \<and> acc (Buy n) \<longrightarrow>
        (acc (SellStop n ?stop) \<longrightarrow>
           strategy_next acc p b (s, gw) =
             Inr (s\<lparr> stop_order := Some \<lparr> ref = next_ref gw + 1, isbuy = False,
                                          exectype = Stop, ord_size = n,
                                          price = Some ?stop \<rparr>,
                     last_stop_price := ?stop, initial_stop := ?stop,
                     break_even_active := False \<rparr>,
                  gw\<lparr> next_ref := next_ref gw + 2,
                      sent := sent gw @ [Buy n, SellStop n ?stop] \<rparr>))
        \<and> (\<not> acc (SellStop n ?stop) \<longrightarrow>
           strategy_next acc p b (s, gw) =
             Inr (s, gw\<lparr> next_ref := next_ref gw + 1, sent := sent gw @ [Buy n] \<rparr>))"
    using step entry_accepted [of p b n acc s gw] entry_stop_refused [of p b n acc s gw]
    by auto
  have 2: "n_status nt = Completed \<and> isbuy (n_order nt) \<longrightarrow>
        entry_price (notify_order s pos nt) = executed_price nt
        \<and> initial_stop (notify_order s pos nt) = initial_stop s
        \<and> last_stop_price (notify_order s pos nt) = last_stop_price s"
    using notify_buy_fill [of nt s pos] by blast
  from 1 2 show ?thesis by blast
qed

lemma size_golden_cross:
  "calculate_risk_size default_params (account_value bar_golden_cross) (close bar_golden_cross)
     (atr bar_golden_cross) = Inr 333"
  by (simp add: sizer_defs bar_golden_cross_def float_eval)

lemma buy_signal_golden_cross: "buy_signal default_params bar_golden_cross"
  by (simp add: buy_signal_def bar_golden_cross_def default_params_def float_eval)

lemma entry_golden_cross:
  "strategy_next accept_all default_params bar_golden_cross (init, gw0)
     = Inr (entered_at_94, gw_entered)"
  using entry_accepted [of default_params bar_golden_cross 333 accept_all init gw0]
    size_golden_cross buy_signal_golden_cross
  by (simp add: strategy_next_def accept_all_def bar_golden_cross_def default_params_def
      gw0_def init_def entered_at_94_def stop_333_def gw_entered_def float_eval)

theorem entry_transition_witness:
  "strategy_next accept_all default_params bar_golden_cross (init, gw0) =
     Inr (init\<lparr> stop_order := Some \<lparr> ref = 2, isbuy = False, exectype = Stop,
                                     ord_size = 333, price = Some 94 \<rparr>,
                last_stop_price := 94, initial_stop := 94 \<rparr>,
          \<lparr> next_ref = 3, sent = [Buy 333, SellStop 333 94] \<rparr>)
   \<and> strategy_next reject_stops default_params bar_golden_cross (init, gw0) =
     Inr (init, \<lparr> next_ref = 2, sent = [Buy 333] \<rparr>)
   \<and> entry_price (notify_order init 333 buy_fill_101) = 101"
  using entry_transition [of default_params bar_golden_cross 333 accept_all init gw0
      buy_fill_101 333]
    entry_transition [of default_params bar_golden_cross 333 reject_stops init gw0
      buy_fill_101 333]
    size_golden_cross buy_signal_golden_cross
  by (simp add: accept_all_def bar_golden_cross_def default_params_def gw0_def init_def
      buy_fill_101_def float_eval)

text \<open>
  The claim as stated fails: the stop is submitted in the signal step, before any fill,
  at the signal bar's close minus twice the ATR (94); when the buy then fills at 101,
  \<open>initial_stop\<close> stays 94, which is not \<open>entry_price - atr * stop_multiplier = 95\<close>.
\<close>

theorem initial_stop_not_from_fill:
  "strategy_next accept_all default_params bar_golden_cross (init, gw0)
     = Inr (entered_at_94, gw_entered)
   \<and> sent gw_entered = [Buy 333, SellStop 333 94]
   \<and> entry_price (notify_order entered_at_94 333 buy_fill_101) = 101
   \<and> initial_stop (notify_order entered_at_94 333 buy_fill_101) = 94
   \<and> initial_stop (notify_order entered_at_94 333 buy_fill_101)
       \<noteq> fsub (entry_price (notify_order entered_at_94 333 buy_fill_101))
              (fmul (atr bar_golden_cross) (atr_stop_mult default_params))"
  using entry_golden_cross
  by (simp add: notify_order_def buy_fill_101_def entered_at_94_def stop_333_def init_def
      gw_entered_def bar_golden_cross_def default_params_def Let_def float_eval)

section \<open>Ratchet\<close>

lemma break_even_cases:
  "break_even acc b (s, gw) = (s, gw)
   \<or> (\<not> break_even_active s
       \<and> (stop_order s = None \<or> fmul (entry_price s) (dbl 1.001) > last_stop_price s)
       \<and> ((\<exists>gw'. break_even acc b (s, gw) = (s, gw'))
          \<or> (\<exists>ord gw'. break_even acc b (s, gw) =
                (s\<lparr> stop_order := Some ord,
                    last_stop_price := fmul (entry_price s) (dbl 1.001),
                    break_even_active := True \<rparr>, gw'))))"
  unfolding break_even_def Let_def
  by (auto split: option.splits)

lemma break_even_ratchet:
  assumes "stop_order s \<noteq> None \<or> break_even_active s"
  shows "last_stop_price s \<le> last_stop_price (fst (break_even acc b (s, gw)))"
  using break_even_cases [of acc b s gw] assms by auto

lemma break_even_keeps_reference:
  assumes "stop_order s \<noteq> None \<or> break_even_active s"
  shows "stop_order (fst (break_even acc b (s, gw))) \<noteq> None
         \<or> break_even_active (fst (break_even acc b (s, gw)))"
  using break_even_cases [of acc b s gw] assms by auto

lemma trailing_ratchet:
  "last_stop_price (fst st) \<le> last_stop_price (fst (trailing acc p b st))"
  using trailing_cases [of acc p b "fst st" "snd st" "fst (trailing acc p b st)"
      "snd (trailing acc p b st)"]
  by auto

lemma partial_exit_ratchet:
  "partial_exit acc p b st = Inr st' \<Longrightarrow> last_stop_price (fst st) \<le> last_stop_price (fst st')"
  unfolding partial_exit_def Let_def
  by (auto split: option.splits sum.splits if_splits)

lemma in_position_ratchet:
  assumes "position_size b \<noteq> 0" "stop_order s \<noteq> None \<or> break_even_active s"
    and "strategy_next acc p b (s, gw) = Inr st'"
  shows "last_stop_price s \<le> last_stop_price (fst st')"
proof (cases "data_len b < max (trend_period p) (slow_period p) + 2")
  case True
  with assms(3) show ?thesis by (auto simp: strategy_next_def)
next
  case False
  let ?a = "break_even acc b (s, gw)"
  let ?b = "trailing acc p b ?a"
  from False assms(1,3) have st': "partial_exit acc p b ?b = Inr st'"
    by (simp add: strategy_next_def)
  have "last_stop_price s \<le> last_stop_price (fst ?a)"
    using assms(2) by (rule break_even_ratchet)
  also have "\<dots> \<le> last_stop_price (fst ?b)" by (rule trailing_ratchet)
  also have "\<dots> \<le> last_stop_price (fst st')"
    using st' by (rule partial_exit_ratchet)
  finally show ?thesis .
qed

lemma notify_keeps_stop_price:
  "last_stop_price (notify_order s pos n) = last_stop_price s"
  by (simp add: notify_order_def Let_def split: option.split)

lemma step_ratchet:
  assumes "case e of Bar b \<Rightarrow> position_size b \<noteq> 0
                       \<and> (stop_order (fst st) \<noteq> None \<or> break_even_active (fst st))
           | Notify pos n \<Rightarrow> True"
    and "step acc p e st = Inr st'"
  shows "last_stop_price (fst st) \<le> last_stop_price (fst st')"
proof (cases e)
  case (Bar b)
  with assms show ?thesis
    using in_position_ratchet [of b "fst st" acc p "snd st" st']
    by (simp add: step_def)
next
  case (Notify pos n)
  with assms(2) show ?thesis
    by (auto simp: step_def notify_keeps_stop_price)
qed

text \<open>
  C1 (as amended). Along every run in which each bar finds an open position and a
  controller that holds a stop-order reference or has the promotion behind it, with
  any notifications in between and any gateway behaviour, \<open>last_stop_price\<close> never
  decreases: break-even, trailing and partial-exit replacements only raise it.
\<close>

theorem ratchet:
  "holds_stop_or_promoted acc p es st
     \<longrightarrow> sorted (last_stop_price (fst st) # stop_prices acc p es st)"
proof (induction es arbitrary: st)
  case Nil
  show ?case by simp
next
  case (Cons e es)
  show ?case
  proof
    assume h: "holds_stop_or_promoted acc p (e # es) st"
    show "sorted (last_stop_price (fst st) # stop_prices acc p (e # es) st)"
    proof (cases "step acc p e st")
      case (Inl err)
      then show ?thesis by simp
    next
      case (Inr st')
      from h Inr have g: "case e of Bar b \<Rightarrow> position_size b \<noteq> 0
                       \<and> (stop_order (fst st) \<noteq> None \<or> break_even_active (fst st))
           | Notify pos n \<Rightarrow> True"
        and rest: "holds_stop_or_promoted acc p es st'"
        by simp_all
      from step_ratchet [OF g Inr]
      have le: "last_stop_price (fst st) \<le> last_stop_price (fst st')" .
      from Cons.IH [of st'] rest
      have "sorted (last_stop_price (fst st') # stop_prices acc p es st')" by blast
      with le
      have "sorted (last_stop_price (fst st) # last_stop_price (fst st')
                      # stop_prices acc p es st')"
        by (simp only: sorted2 simp_thms)
      with Inr show ?thesis by simp
    qed
  qed
qed

lemmas run_defs = step_def notify_order_def buy_fill_100_def buy_fill_101_def
  entered_at_94_def stop_333_def gw_entered_def bar_trail_def bar_after_reject_def
  stop_rejected_def default_params_def init_def

lemma ratchet_run_prices:
  "stop_prices accept_all default_params ratchet_run (entered_at_94, gw_entered)
     = [94, 101, 101]"
  by (simp add: ratchet_run_def run_defs step_defs gateway_defs float_eval)

lemma ratchet_run_guard:
  "holds_stop_or_promoted accept_all default_params ratchet_run (entered_at_94, gw_entered)"
  by (simp add: ratchet_run_def run_defs step_defs gateway_defs float_eval)

theorem ratchet_witness:
  "holds_stop_or_promoted accept_all default_params ratchet_run (entered_at_94, gw_entered)
   \<and> sorted (last_stop_price entered_at_94
               # stop_prices accept_all default_params ratchet_run (entered_at_94, gw_entered))
   \<and> stop_prices accept_all default_params ratchet_run (entered_at_94, gw_entered)
       = [94, 101, 101]"
  using ratchet [of accept_all default_params ratchet_run "(entered_at_94, gw_entered)"]
    ratchet_run_guard ratchet_run_prices
  by simp

text \<open>
  The claim as stated fails once the reference is empty before the promotion: the stop
  has trailed from 94 to 101, the gateway rejects the trailing order, and on the next
  bar the break-even promotion submits a stop at 100.1 (the double), below 101.
\<close>

theorem promotion_lowers_stop_price:
  "stop_prices accept_all default_params lowered_run (init, gw0)
     = [94, 94, 101, 101, dbl 100.1]
   \<and> \<not> sorted (stop_prices accept_all default_params lowered_run (init, gw0))"
proof -
  have "stop_prices accept_all default_params lowered_run (init, gw0)
          = 94 # stop_prices accept_all default_params (tl lowered_run)
                   (entered_at_94, gw_entered)"
    using entry_golden_cross
    by (simp add: lowered_run_def step_def entered_at_94_def init_def)
  moreover have "stop_prices accept_all default_params (tl lowered_run)
                   (entered_at_94, gw_entered) = [94, 101, 101, dbl 100.1]"
    by (simp add: lowered_run_def run_defs step_defs gateway_defs float_eval)
  ultimately have eq: "stop_prices accept_all default_params lowered_run (init, gw0)
                         = [94, 94, 101, 101, dbl 100.1]"
    by simp
  have "\<not> sorted [94, 94, 101, 101, dbl 100.1]"
  proof
    assume "sorted [94, 94, 101, 101, dbl 100.1]"
    then have "101 \<le> dbl 100.1" by (simp only: sorted2 simp_thms)
    then show False by (simp add: float_eval)
  qed
  with eq show ?thesis by (simp only: simp_thms)
qed

section \<open>Size synchronisation of the stop\<close>

lemma notify_other_order:
  assumes "stop_order s = Some so" "ref (n_order nt) \<noteq> ref so"
  shows "stop_order (notify_order s pos nt) = Some so"
  using assms by (simp add: notify_order_def Let_def)

lemma notify_own_order:
  assumes "stop_order s = Some so" "ref (n_order nt) = ref so"
    and "n_status nt \<in> {Completed, Canceled, Margin, Rejected}"
  shows "stop_order (notify_order s pos nt) = None"
  using assms by (auto simp: notify_order_def Let_def)

lemma notify_no_order:
  assumes "stop_order s = None"
  shows "stop_order (notify_order s pos nt) = None"
  using assms by (simp add: notify_order_def Let_def)

lemma entry_fill_synced:
  assumes warm: "max (trend_period p) (slow_period p) + 2 \<le> data_len b"
    and flat: "position_size b = 0" and sig: "buy_signal p b"
    and sz: "calculate_risk_size p (account_value b) (close b) (atr b) = Inr n" and pos: "0 < n"
  shows "\<exists>s1 g1. strategy_next accept_all p b (s, gw) = Inr (s1, g1)
           \<and> sent g1 = sent gw
                @ [Buy n, SellStop n (fsub (close b) (fmul (atr b) (atr_stop_mult p)))]
           \<and> size_synced (settle s1 n [filled (market_buy (next_ref gw) n) pr]) n"
proof -
  let ?stop = "fsub (close b) (fmul (atr b) (atr_stop_mult p))"
  let ?ord = "\<lparr> ref = next_ref gw + 1, isbuy = False, exectype = Stop, ord_size = n,
               price = Some ?stop \<rparr>"
  let ?s1 = "s\<lparr> stop_order := Some ?ord, last_stop_price := ?stop, initial_stop := ?stop,
               break_even_active := False \<rparr>"
  let ?g1 = "gw\<lparr> next_ref := next_ref gw + 2, sent := sent gw @ [Buy n, SellStop n ?stop] \<rparr>"
  have "entry accept_all p b (s, gw) = Inr (?s1, ?g1)"
    using sig sz pos by (intro entry_accepted) (simp_all add: accept_all_def)
  with warm flat have run: "strategy_next accept_all p b (s, gw) = Inr (?s1, ?g1)"
    by (simp add: strategy_next_def)
  have "stop_order (notify_order ?s1 n (filled (market_buy (next_ref gw) n) pr)) = Some ?ord"
    by (rule notify_other_order) (simp_all add: filled_def market_buy_def)
  then have "size_synced (settle ?s1 n [filled (market_buy (next_ref gw) n) pr]) n"
    by (simp add: size_synced_def)
  with run show ?thesis by simp
qed

lemma partial_exit_synced:
  assumes sig: "sell_signal b"
    and long: "0 < position_size b" "fin64 (float_of_int (position_size b))"
    and frac: "is_double (retain_pct p)" "0 \<le> retain_pct p" "retain_pct p < 1"
    and fresh: "\<forall>old. stop_order s = Some old \<longrightarrow> ref old < next_ref gw"
  shows "\<exists>s1 g1. partial_exit accept_all p b (s, gw) = Inr (s1, g1)
           \<and> size_synced
               (settle s1 (py_int (fmul (float_of_int (position_size b)) (retain_pct p)))
                  ((case stop_order s of None \<Rightarrow> [] | Some old \<Rightarrow> [canceled old])
                   @ [filled (market_sell (next_ref gw)
                               (position_size b
                                - py_int (fmul (float_of_int (position_size b)) (retain_pct p)))) pr]))
               (py_int (fmul (float_of_int (position_size b)) (retain_pct p)))"
proof -
  let ?S = "position_size b"
  let ?retain = "py_int (fmul (float_of_int ?S) (retain_pct p))"
  let ?fill = "filled (market_sell (next_ref gw) (?S - ?retain)) pr"
  let ?price = "max (last_stop_price s) (fsub (low b) (atr b))"
  let ?new = "\<lparr> ref = next_ref gw + 1, isbuy = False, exectype = Stop, ord_size = ?retain,
               price = Some ?price \<rparr>"
  note rb = retain_below_size [OF long frac]
  from rb(3) have sell: "0 < ?S - ?retain" by simp
  note nn = rb(2)
  note pe = partial_exit_accepted [OF sig rb(1) sell, of s gw, unfolded Let_def]
  show ?thesis
  proof (cases "0 < ?retain")
    case True
    let ?s1 = "s\<lparr> stop_order := Some ?new, last_stop_price := ?price \<rparr>"
    have so: "stop_order ?s1 = Some ?new" by simp
    have fill: "stop_order (notify_order st ?retain ?fill) = Some ?new"
      if "stop_order st = Some ?new" for st
      using that by (rule notify_other_order) (simp add: filled_def market_sell_def)
    have "stop_order (settle ?s1 ?retain
            ((case stop_order s of None \<Rightarrow> [] | Some old \<Rightarrow> [canceled old]) @ [?fill]))
          = Some ?new"
    proof (cases "stop_order s")
      case None
      then show ?thesis using fill [OF so] by simp
    next
      case (Some old)
      with fresh have "ref old < next_ref gw" by simp
      then have "stop_order (notify_order ?s1 ?retain (canceled old)) = Some ?new"
        by (intro notify_other_order) (simp_all add: canceled_def)
      from fill [OF this] Some show ?thesis by simp
    qed
    then have "size_synced (settle ?s1 ?retain
            ((case stop_order s of None \<Rightarrow> [] | Some old \<Rightarrow> [canceled old]) @ [?fill])) ?retain"
      by (simp add: size_synced_def)
    with pe True show ?thesis by simp
  next
    case False
    with nn have zero: "?retain = 0" by simp
    have "stop_order (settle s ?retain
            ((case stop_order s of None \<Rightarrow> [] | Some old \<Rightarrow> [canceled old]) @ [?fill])) = None"
    proof (cases "stop_order s")
      case None
      then show ?thesis by (simp add: notify_no_order)
    next
      case (Some old)
      then have "stop_order (notify_order s ?retain (canceled old)) = None"
        by (rule notify_own_order) (simp_all add: canceled_def)
      with Some show ?thesis by (simp add: notify_no_order)
    qed
    then have "size_synced (settle s ?retain
            ((case stop_order s of None \<Rightarrow> [] | Some old \<Rightarrow> [canceled old]) @ [?fill])) ?retain"
      by (simp add: size_synced_def zero)
    with pe False show ?thesis by simp
  qed
qed

lemma stop_fill_synced:
  assumes "stop_order s = Some so"
  shows "size_synced (settle s 0 [filled so pr]) 0"
proof -
  have "stop_order (notify_order s 0 (filled so pr)) = None"
    using assms by (rule notify_own_order) (simp_all add: filled_def)
  then show ?thesis by (simp add: size_synced_def)
qed

text \<open>
  C7 (as amended). With a gateway that accepts the submissions, orders that fill in
  full, and their notifications delivered before the next bar: after the entry fill the
  held stop has the size of the bought position; after a partial exit of a long position
  (its size converting to a finite float, retained fraction a double in \<open>[0, 1)\<close>) the
  held stop has the retained size, or none is held when nothing is retained; after the fill of the held
  stop no stop is held.
\<close>

theorem size_sync:
  "(max (trend_period p) (slow_period p) + 2 \<le> data_len b \<and> position_size b = 0
      \<and> buy_signal p b
      \<and> calculate_risk_size p (account_value b) (close b) (atr b) = Inr n \<and> 0 < n
      \<longrightarrow> (\<exists>s1 g1. strategy_next accept_all p b (s, gw) = Inr (s1, g1)
             \<and> sent g1 = sent gw
                  @ [Buy n, SellStop n (fsub (close b) (fmul (atr b) (atr_stop_mult p)))]
             \<and> size_synced (settle s1 n [filled (market_buy (next_ref gw) n) pr]) n))
   \<and> (sell_signal b \<and> 0 < position_size b \<and> fin64 (float_of_int (position_size b))
      \<and> is_double (retain_pct p) \<and> 0 \<le> retain_pct p \<and> retain_pct p < 1
      \<and> (\<forall>old. stop_order s = Some old \<longrightarrow> ref old < next_ref gw)
      \<longrightarrow> (\<exists>s1 g1. partial_exit accept_all p b (s, gw) = Inr (s1, g1)
             \<and> size_synced
                 (settle s1 (py_int (fmul (float_of_int (position_size b)) (retain_pct p)))
                    ((case stop_order s of None \<Rightarrow> [] | Some old \<Rightarrow> [canceled old])
                     @ [filled (market_sell (next_ref gw)
                                 (position_size b
                                  - py_int (fmul (float_of_int (position_size b)) (retain_pct p))))
                          pr]))
                 (py_int (fmul (float_of_int (position_size b)) (retain_pct p)))))
   \<and> (stop_order s = Some so \<longrightarrow> size_synced (settle s 0 [filled so pr]) 0)"
  using entry_fill_synced [of p b n s gw pr] partial_exit_synced [of b p s gw pr]
    stop_fill_synced [of s so pr]
  by blast

lemma retain_dead_cross:
  "py_int (fmul (float_of_int (position_size bar_dead_cross)) (retain_pct default_params))
     = 150"
  by (simp add: py_int_def default_params_def bar_dead_cross_def float_of_int_def rnd64_1000
      float_eval)

lemma float_dead_cross: "float_of_int (position_size bar_dead_cross) = 1000"
  by (simp add: bar_dead_cross_def float_of_int_def rnd64_1000)

theorem size_sync_witness:
  "(\<exists>s1 g1. strategy_next accept_all default_params bar_golden_cross (init, gw0) = Inr (s1, g1)
      \<and> sent g1 = [Buy 333, SellStop 333 94]
      \<and> size_synced (settle s1 333 [filled (market_buy 1 333) 100]) 333)
   \<and> is_double (retain_pct default_params)
   \<and> (\<exists>s1 g1. partial_exit accept_all default_params bar_dead_cross (long_1000, gw2)
                 = Inr (s1, g1)
      \<and> size_synced (settle s1 150 [canceled stop_1000, filled (market_sell 2 850) 99]) 150)
   \<and> size_synced (settle long_1000 0 [filled stop_1000 94]) 0"
proof -
  note inst1 = size_sync [of default_params bar_golden_cross 333 init gw0 100 stop_1000]
  note inst2 = size_sync [of default_params bar_dead_cross 333 long_1000 gw2 99 stop_1000]
  note inst3 = size_sync [of default_params bar_dead_cross 333 long_1000 gw2 94 stop_1000]
  have a: "\<exists>s1 g1. strategy_next accept_all default_params bar_golden_cross (init, gw0)
               = Inr (s1, g1)
      \<and> sent g1 = [Buy 333, SellStop 333 94]
      \<and> size_synced (settle s1 333 [filled (market_buy 1 333) 100]) 333"
    using inst1 size_golden_cross buy_signal_golden_cross
    by (simp add: bar_golden_cross_def default_params_def gw0_def float_eval)
  have frac: "0 \<le> retain_pct default_params" "retain_pct default_params < 1"
    by (simp_all add: default_params_def float_eval)
  have b: "\<exists>s1 g1. partial_exit accept_all default_params bar_dead_cross (long_1000, gw2)
               = Inr (s1, g1)
      \<and> size_synced (settle s1 150 [canceled stop_1000, filled (market_sell 2 850) 99]) 150"
    using inst2 retain_dead_cross float_dead_cross is_double_retain_pct frac
    by (simp add: sell_signal_def bar_dead_cross_def gw2_def long_1000_def stop_1000_def
        fin64_def)
  have c: "size_synced (settle long_1000 0 [filled stop_1000 94]) 0"
    using inst3 by (simp add: long_1000_def)
  from a is_double_retain_pct b c show ?thesis by blast
qed

lemma entry_golden_cross_refused:
  "strategy_next reject_stops default_params bar_golden_cross (init, gw0)
     = Inr (init, \<lparr> next_ref = 2, sent = [Buy 333] \<rparr>)"
  using entry_stop_refused [of default_params bar_golden_cross 333 reject_stops init gw0]
    size_golden_cross buy_signal_golden_cross
  by (simp add: strategy_next_def bar_golden_cross_def default_params_def gw0_def)

text \<open>
  The claim as stated fails when the stop submission raises: the entry step still sends
  the buy, the buy fills, and the position of 333 units has no protective stop.
\<close>

theorem unprotected_after_refused_stop:
  "strategy_next reject_stops default_params bar_golden_cross (init, gw0)
     = Inr (init, \<lparr> next_ref = 2, sent = [Buy 333] \<rparr>)
   \<and> stop_order (settle init 333 [filled (market_buy 1 333) 100]) = None
   \<and> \<not> size_synced (settle init 333 [filled (market_buy 1 333) 100]) 333"
  using entry_golden_cross_refused
  by (simp add: size_synced_def notify_order_def filled_def market_buy_def init_def Let_def)
end
